theory Spec2Isabelle
  imports Complex_Main
begin

section \<open>Exceptions of the program\<close>

text \<open>
  Every exception the modelled code can raise is a value.  \<open>NameError\<close> carries the name
  that is not bound, \<open>Exception\<close> and \<open>ValueError\<close> their message, and the exceptions
  of \<open>open\<close> (\<open>FileNotFoundError\<close>, \<open>IsADirectoryError\<close>, \<open>NotADirectoryError\<close>,
  \<open>PermissionError\<close>, any other \<open>OSError\<close>) the file name.  \<open>JSONDecodeError\<close> and
  \<open>UnicodeDecodeError\<close> are what \<open>json.load\<close> raises on a file that is not JSON or not
  UTF-8.  \<open>InvalidAddress\<close> is what \<open>Web3.to_checksum_address\<close> raises,
  \<open>DecodingError\<close> what \<open>web3.codec.decode\<close> raises, \<open>TimeExhausted\<close> what
  \<open>wait_for_transaction_receipt\<close> raises at its timeout; the three \<open>Decimal\<close> errors are
  the trapped signals of the decimal context.
\<close>

datatype error =
    NameError string
  | AssertionError
  | OverflowError
  | ZeroDivisionError
  | IndexError
  | ValueError string
  | FileNotFoundError string
  | IsADirectoryError string
  | NotADirectoryError string
  | PermissionError string
  | OSError string
  | JSONDecodeError
  | UnicodeDecodeError
  | InvalidAddress
  | ConnectionError
  | DecodingError
  | TimeExhausted
  | Exception string
  | DecimalOverflow
  | DecimalDivisionByZero
  | DecimalInvalidOperation

section \<open>Python's \<open>decimal.Decimal\<close> under the default context\<close>

text \<open>
  \<open>contracts.py\<close> never touches the decimal context, so every \<open>Decimal\<close> operation runs
  with the default one: precision 28, rounding \<open>ROUND_HALF_EVEN\<close>, \<open>Emax = 999999\<close>,
  \<open>Emin = -999999\<close>, no clamping, and the \<open>Overflow\<close>, \<open>DivisionByZero\<close> and
  \<open>InvalidOperation\<close> signals trapped.  A finite \<open>Decimal\<close> is the triple of the
  interpreter (\<open>_sign\<close>, \<open>_int\<close>, \<open>_exp\<close>): its value is \<open>(-1)^sign * int * 10^exp\<close>.
\<close>

record decimal =
  dsign :: bool
  dint :: nat
  dexp :: int

definition prec :: int where "prec = 28"
definition Emax :: int where "Emax = 999999"
definition Emin :: int where "Emin = - 999999"
definition Etiny :: int where "Etiny = Emin - prec + 1"
definition Etop :: int where "Etop = Emax - prec + 1"

text \<open>\<open>len(str(n))\<close> for a non-negative integer: the number of decimal digits, 1 for 0.\<close>

function ndigits :: "nat \<Rightarrow> nat" where
  "ndigits n = (if n < 10 then 1 else Suc (ndigits (n div 10)))"
  by pat_completeness auto
termination
  by (relation "measure (\<lambda>n. n)") auto

declare ndigits.simps [simp del]

text \<open>
  \<open>Decimal._fix\<close>: round a finite number to the context.  With \<open>k\<close> digits dropped, the
  kept prefix is \<open>c div 10^k\<close> and the dropped suffix \<open>c mod 10^k\<close>; \<open>ROUND_HALF_EVEN\<close>
  increments the prefix when the suffix is above one half, or exactly one half with an odd
  prefix.
\<close>

definition dec_fix :: "decimal \<Rightarrow> error + decimal" where
  "dec_fix x =
    (if dint x = 0 then Inr (x\<lparr>dexp := min (max (dexp x) Etiny) Emax\<rparr>)
     else
       let exp_min0 = int (ndigits (dint x)) + dexp x - prec in
       if exp_min0 > Etop then Inl DecimalOverflow
       else
         let exp_min = max exp_min0 Etiny in
         if dexp x < exp_min then
           let digits = int (ndigits (dint x)) + dexp x - exp_min;
               c = (if digits < 0 then 1 else dint x);
               e = (if digits < 0 then exp_min - 1 else dexp x);
               k = nat (exp_min - e);
               q = c div 10 ^ k;
               r = c mod 10 ^ k;
               up = (2 * r > 10 ^ k \<or> (2 * r = 10 ^ k \<and> odd q));
               coeff = (if up then q + 1 else q);
               carry = (up \<and> int (ndigits coeff) > prec);
               coeff' = (if carry then coeff div 10 else coeff);
               exp_min' = (if carry then exp_min + 1 else exp_min)
           in if exp_min' > Etop then Inl DecimalOverflow
              else Inr \<lparr>dsign = dsign x, dint = coeff', dexp = exp_min'\<rparr>
         else Inr x)"

text \<open>
  The loop of \<open>Decimal.__truediv__\<close> that brings an exact quotient as close to the ideal
  exponent as its trailing zeros allow.
\<close>

function strip_zeros :: "nat \<Rightarrow> int \<Rightarrow> int \<Rightarrow> nat \<times> int" where
  "strip_zeros coeff e ideal =
     (if e < ideal \<and> coeff mod 10 = 0 then strip_zeros (coeff div 10) (e + 1) ideal
      else (coeff, e))"
  by pat_completeness auto
termination
  by (relation "measure (\<lambda>(coeff, e, ideal). nat (ideal - e))") auto

declare strip_zeros.simps [simp del]

definition dec_truediv :: "decimal \<Rightarrow> decimal \<Rightarrow> error + decimal" where
  "dec_truediv a b =
    (let sign = (dsign a \<noteq> dsign b) in
     if dint b = 0 then
       (if dint a = 0 then Inl DecimalInvalidOperation else Inl DecimalDivisionByZero)
     else if dint a = 0 then
       dec_fix \<lparr>dsign = sign, dint = 0, dexp = dexp a - dexp b\<rparr>
     else
       let shift = int (ndigits (dint b)) - int (ndigits (dint a)) + prec + 1;
           e = dexp a - dexp b - shift;
           num = (if shift \<ge> 0 then dint a * 10 ^ nat shift else dint a);
           den = (if shift \<ge> 0 then dint b else dint b * 10 ^ nat (- shift));
           coeff = num div den;
           remainder = num mod den
       in if remainder \<noteq> 0 then
            dec_fix \<lparr>dsign = sign, dint = (if coeff mod 5 = 0 then coeff + 1 else coeff),
                     dexp = e\<rparr>
          else
            (case strip_zeros coeff e (dexp a - dexp b) of
               (c, e') \<Rightarrow> dec_fix \<lparr>dsign = sign, dint = c, dexp = e'\<rparr>))"

text \<open>\<open>Decimal.__mul__\<close>: the product of the coefficients at the sum of the exponents, fixed.\<close>

definition dec_mul :: "decimal \<Rightarrow> decimal \<Rightarrow> error + decimal" where
  "dec_mul a b =
     dec_fix \<lparr>dsign = (dsign a \<noteq> dsign b), dint = dint a * dint b, dexp = dexp a + dexp b\<rparr>"

text \<open>\<open>Decimal(i)\<close> for an int is exact; \<open>int(x)\<close> truncates toward zero.\<close>

definition dec_of_int :: "int \<Rightarrow> decimal" where
  "dec_of_int i = \<lparr>dsign = (i < 0), dint = nat \<bar>i\<bar>, dexp = 0\<rparr>"

definition dec_to_int :: "decimal \<Rightarrow> int" where
  "dec_to_int x =
     (let s = (if dsign x then - 1 else 1) in
      if dexp x \<ge> 0 then s * int (dint x) * 10 ^ nat (dexp x)
      else s * int (dint x div 10 ^ nat (- dexp x)))"

section \<open>\<open>TokenDetails\<close>: amount conversion\<close>

text \<open>
  \<open>convert_to_decimals\<close> is \<open>Decimal(raw_amount) / Decimal(10**self.decimals)\<close> and
  \<open>convert_to_raw\<close> is \<open>int(decimal_amount * 10**self.decimals)\<close>; \<open>decimals\<close> is the
  token's \<open>uint8\<close> decimal count.
\<close>

definition convert_to_decimals :: "nat \<Rightarrow> int \<Rightarrow> error + decimal" where
  "convert_to_decimals decimals raw_amount =
     dec_truediv (dec_of_int raw_amount) (dec_of_int (10 ^ decimals))"

definition convert_to_raw :: "nat \<Rightarrow> decimal \<Rightarrow> error + int" where
  "convert_to_raw decimals decimal_amount =
     (case dec_mul decimal_amount (dec_of_int (10 ^ decimals)) of
        Inl err \<Rightarrow> Inl err
      | Inr x \<Rightarrow> Inr (dec_to_int x))"

definition roundtrip :: "nat \<Rightarrow> int \<Rightarrow> error + int" where
  "roundtrip decimals raw_amount =
     (case convert_to_decimals decimals raw_amount of
        Inl err \<Rightarrow> Inl err
      | Inr x \<Rightarrow> convert_to_raw decimals x)"

text \<open>
  \<open>represents n e r\<close>: the coefficient \<open>n\<close> at exponent \<open>e\<close> denotes the integer \<open>r\<close>.
\<close>

definition represents :: "nat \<Rightarrow> int \<Rightarrow> nat \<Rightarrow> bool" where
  "represents n e r = (if 0 \<le> e then n * 10 ^ nat e = r else n = r * 10 ^ nat (- e))"

text \<open>
  \<open>exact_quotient x r d\<close>: the decimal \<open>x\<close> is the quotient \<open>r / 10^d\<close> of a non-negative
  \<open>r\<close>, with nothing rounded away: \<open>int * 10^exp * 10^d = r\<close>.
\<close>

definition exact_quotient :: "decimal \<Rightarrow> int \<Rightarrow> nat \<Rightarrow> bool" where
  "exact_quotient x r d =
     (\<not> dsign x \<and> - int d \<le> dexp x \<and> int (dint x) * 10 ^ nat (dexp x + int d) = r)"

section \<open>Python values and strings\<close>

text \<open>
  The arguments of \<open>generate_cache_key\<close> are checked by type at run time, so they are
  dynamically typed values here.
\<close>

datatype pyval = PyInt int | PyStr string | PyBool bool | PyBytes string | PyNone

text \<open>\<open>str.lower()\<close> on ASCII text: each of the letters \<open>A\<close>..\<open>Z\<close> becomes its small letter.\<close>

definition lower_char :: "char \<Rightarrow> char" where
  "lower_char c =
     (case map_of (zip ''ABCDEFGHIJKLMNOPQRSTUVWXYZ'' ''abcdefghijklmnopqrstuvwxyz'') c of
        Some l \<Rightarrow> l
      | None \<Rightarrow> c)"

definition lower :: "string \<Rightarrow> string" where
  "lower s = map lower_char s"

definition startswith :: "string \<Rightarrow> string \<Rightarrow> bool" where
  "startswith s p = (take (length p) s = p)"

text \<open>The slice \<open>s[0:n]\<close>; a negative \<open>n\<close> counts from the end.\<close>

definition slice_to :: "string \<Rightarrow> int \<Rightarrow> string" where
  "slice_to s n = (if 0 \<le> n then take (nat n) s else take (nat (int (length s) + n)) s)"

section \<open>The ABI repository: \<open>get_abi_by_filename\<close>\<close>

text \<open>
  What the code reaches outside itself is a parameter.  \<open>open_abi fname\<close> is what
  \<open>open(here / "abi" / Path(fname), "rt", encoding="utf-8")\<close> does on the file system of
  the machine: it gives the file to read (kept as its text), or raises, and which exception
  it raises depends on the name (\<open>FileNotFoundError\<close> when nothing has that name,
  \<open>IsADirectoryError\<close> when the name is a directory, \<open>ValueError\<close> for a name with a
  null character, and so on).  \<open>json_load\<close> is \<open>json.load\<close> on that file: the parsed
  interface, or the exception it raises.  \<open>to_checksum_address\<close> is
  \<open>Web3.to_checksum_address\<close> (\<open>None\<close> when it rejects the address) and \<open>py_hash\<close> the
  built-in \<open>hash\<close> on a pair of an int and a str.
\<close>

datatype abi = Abi string

record env =
  open_abi :: "string \<Rightarrow> error + string"
  json_load :: "string \<Rightarrow> error + abi"
  to_checksum_address :: "string \<Rightarrow> string option"
  py_hash :: "int \<times> string \<Rightarrow> int"

text \<open>
  Remote traffic is recorded: one entry per request sent to the node.  The process state is
  that record and the memo table of \<open>lru_cache(maxsize=512)\<close> around
  \<open>get_abi_by_filename\<close>, least recently used entry first.  A call that raises leaves no
  entry in the table.
\<close>

datatype rpc = EthChainId | EthCall string string

record state =
  rpc_log :: "rpc list"
  abi_cache :: "(string \<times> abi) list"

definition remove_key :: "'k \<Rightarrow> ('k \<times> 'v) list \<Rightarrow> ('k \<times> 'v) list" where
  "remove_key k xs = filter (\<lambda>p. fst p \<noteq> k) xs"

definition get_abi_by_filename :: "env \<Rightarrow> string \<Rightarrow> state \<Rightarrow> (error + abi) \<times> state" where
  "get_abi_by_filename env fname st =
     (case map_of (abi_cache st) fname of
        Some cached \<Rightarrow>
          (Inr cached, st\<lparr>abi_cache := remove_key fname (abi_cache st) @ [(fname, cached)]\<rparr>)
      | None \<Rightarrow>
          (case open_abi env fname of
             Inl e \<Rightarrow> (Inl e, st)
           | Inr f \<Rightarrow>
               (case json_load env f of
                  Inl e \<Rightarrow> (Inl e, st)
                | Inr abi \<Rightarrow>
                    (Inr abi,
                     st\<lparr>abi_cache :=
                          (if 512 \<le> length (abi_cache st) then tl (abi_cache st)
                           else abi_cache st) @ [(fname, abi)]\<rparr>))))"

section \<open>\<open>TokenDetails\<close> and the token cache\<close>

record contract =
  address :: string
  contract_abi :: abi

record token_details =
  contract :: contract
  name :: "string option"
  symbol :: "string option"
  total_supply :: "int option"
  decimals :: "int option"

definition generate_cache_key :: "(int \<times> string \<Rightarrow> int) \<Rightarrow> pyval \<Rightarrow> pyval \<Rightarrow> error + int" where
  "generate_cache_key hash chain_id addr =
     (case chain_id of
        PyInt c \<Rightarrow>
          (case addr of
             PyStr a \<Rightarrow>
               if startswith a ''0x'' then Inr (hash (c, lower a)) else Inl AssertionError
           | _ \<Rightarrow> Inl AssertionError)
      | _ \<Rightarrow> Inl AssertionError)"

text \<open>
  The dict stored per key, and \<open>cachetools.LRUCache\<close> with the default size of 1 per
  item: \<open>items\<close> is ordered least recently used first.  \<open>get\<close> on a present key marks it
  most recently used; \<open>cache[key] = value\<close> raises \<open>ValueError\<close> when the item cannot fit
  at all, evicts from the front while the cache is full, and marks the key most recently
  used.
\<close>

record cache_entry =
  entry_name :: "string option"
  entry_symbol :: "string option"
  entry_supply :: "int option"
  entry_decimals :: "int option"

record lru_cache =
  maxsize :: nat
  items :: "(int \<times> cache_entry) list"

definition cache_get :: "lru_cache \<Rightarrow> int \<Rightarrow> cache_entry option \<times> lru_cache" where
  "cache_get c key =
     (case map_of (items c) key of
        None \<Rightarrow> (None, c)
      | Some v \<Rightarrow> (Some v, c\<lparr>items := remove_key key (items c) @ [(key, v)]\<rparr>))"

definition cache_setitem :: "lru_cache \<Rightarrow> int \<Rightarrow> cache_entry \<Rightarrow> error + lru_cache" where
  "cache_setitem c key v =
     (if maxsize c < 1 then Inl (ValueError ''value too large'')
      else if map_of (items c) key \<noteq> None then
        Inr (c\<lparr>items := remove_key key (items c) @ [(key, v)]\<rparr>)
      else
        Inr (c\<lparr>items := drop (length (items c) + 1 - maxsize c) (items c) @ [(key, v)]\<rparr>))"

section \<open>The node\<close>

text \<open>
  A contract call returns a value, raises one of \<open>_call_missing_exceptions\<close>
  (\<open>TransactionFailed\<close>, \<open>BadFunctionCallOutput\<close>, \<open>ValueError\<close>, \<open>ContractLogicError\<close>),
  raises \<open>OverflowError\<close>, or raises anything else.
\<close>

datatype 'a call_result = Returned 'a | CallMissing | Overflowed | Failed error

record node =
  eth_chain_id :: "error + int"
  symbol_call :: "string \<Rightarrow> string call_result"
  name_call :: "string \<Rightarrow> string call_result"
  decimals_call :: "string \<Rightarrow> int call_result"
  totalSupply_call :: "string \<Rightarrow> int call_result"

section \<open>\<open>fetch_erc20_details\<close>\<close>

text \<open>
  The function up to its cache lookup (the chain id, the checksummed address, the contract
  binding, the cache key and \<open>cache.get\<close>): either the details rebuilt from a cached entry
  around the binding just made, or the binding and the key to go on with.  \<open>not chain_id\<close>
  holds for \<open>None\<close> and for 0; then \<open>web3.eth.chain_id\<close> asks the node.
\<close>

datatype lookup = Hit token_details | Miss contract int

definition resolve_chain_id :: "node \<Rightarrow> int option \<Rightarrow> state \<Rightarrow> (error + int) \<times> state" where
  "resolve_chain_id web3 chain_id st =
     (case chain_id of
        Some c \<Rightarrow>
          if c \<noteq> 0 then (Inr c, st)
          else (eth_chain_id web3, st\<lparr>rpc_log := rpc_log st @ [EthChainId]\<rparr>)
      | None \<Rightarrow> (eth_chain_id web3, st\<lparr>rpc_log := rpc_log st @ [EthChainId]\<rparr>))"

definition cache_lookup ::
  "env \<Rightarrow> node \<Rightarrow> string \<Rightarrow> lru_cache option \<Rightarrow> int option \<Rightarrow> state
     \<Rightarrow> (error + lookup) \<times> lru_cache option \<times> state" where
  "cache_lookup env web3 token_address cache chain_id st =
     (case resolve_chain_id web3 chain_id st of
        (Inl e, st1) \<Rightarrow> (Inl e, cache, st1)
      | (Inr cid, st1) \<Rightarrow>
          (case to_checksum_address env token_address of
             None \<Rightarrow> (Inl InvalidAddress, cache, st1)
           | Some a \<Rightarrow>
               (case get_abi_by_filename env ''ERC20.json'' st1 of
                  (Inl e, st2) \<Rightarrow> (Inl e, cache, st2)
                | (Inr abi, st2) \<Rightarrow>
                    let erc_20 = \<lparr>address = a, contract_abi = abi\<rparr> in
                    (case generate_cache_key (py_hash env) (PyInt cid) (PyStr token_address) of
                       Inl e \<Rightarrow> (Inl e, cache, st2)
                     | Inr key \<Rightarrow>
                         (case cache of
                            None \<Rightarrow> (Inr (Miss erc_20 key), None, st2)
                          | Some c \<Rightarrow>
                              (case cache_get c key of
                                 (None, c') \<Rightarrow> (Inr (Miss erc_20 key), Some c', st2)
                               | (Some cached, c') \<Rightarrow>
                                   (Inr (Hit \<lparr>contract = erc_20,
                                              name = entry_name cached,
                                              symbol = entry_symbol cached,
                                              total_supply = entry_supply cached,
                                              decimals = entry_decimals cached\<rparr>),
                                    Some c', st2)))))))"

text \<open>
  One \<open>try\<close> block each.  \<open>contracts.py\<close> neither defines nor imports the name
  \<open>TokenDetailError\<close>, so evaluating \<open>raise TokenDetailError(...)\<close> raises \<open>NameError\<close>
  before any exception object is built.  Only the \<open>symbol\<close> and \<open>name\<close> blocks have an
  \<open>except OverflowError\<close> clause.
\<close>

definition read_str :: "string call_result \<Rightarrow> int \<Rightarrow> bool \<Rightarrow> error + string option" where
  "read_str r max_str_length raise_on_error =
     (case r of
        Returned s \<Rightarrow> Inr (Some (slice_to s max_str_length))
      | CallMissing \<Rightarrow>
          if raise_on_error then Inl (NameError ''TokenDetailError'') else Inr None
      | Overflowed \<Rightarrow> Inr None
      | Failed e \<Rightarrow> Inl e)"

definition read_decimals :: "int call_result \<Rightarrow> bool \<Rightarrow> error + int" where
  "read_decimals r raise_on_error =
     (case r of
        Returned d \<Rightarrow> Inr d
      | CallMissing \<Rightarrow>
          if raise_on_error then Inl (NameError ''TokenDetailError'') else Inr 0
      | Overflowed \<Rightarrow> Inl OverflowError
      | Failed e \<Rightarrow> Inl e)"

definition read_supply :: "int call_result \<Rightarrow> bool \<Rightarrow> error + int option" where
  "read_supply r raise_on_error =
     (case r of
        Returned s \<Rightarrow> Inr (Some s)
      | CallMissing \<Rightarrow>
          if raise_on_error then Inl (NameError ''TokenDetailError'') else Inr None
      | Overflowed \<Rightarrow> Inl OverflowError
      | Failed e \<Rightarrow> Inl e)"

text \<open>The four reads in the order of the source; every attempted call is remote traffic.\<close>

definition called :: "string \<Rightarrow> string \<Rightarrow> state \<Rightarrow> state" where
  "called a fn st = st\<lparr>rpc_log := rpc_log st @ [EthCall a fn]\<rparr>"

definition read_fields ::
  "node \<Rightarrow> string \<Rightarrow> int \<Rightarrow> bool \<Rightarrow> state
     \<Rightarrow> (error + string option \<times> string option \<times> int \<times> int option) \<times> state" where
  "read_fields web3 a max_str_length raise_on_error st =
     (let st1 = called a ''symbol'' st in
      case read_str (symbol_call web3 a) max_str_length raise_on_error of
        Inl e \<Rightarrow> (Inl e, st1)
      | Inr sym_v \<Rightarrow>
          let st2 = called a ''name'' st1 in
          (case read_str (name_call web3 a) max_str_length raise_on_error of
             Inl e \<Rightarrow> (Inl e, st2)
           | Inr name_v \<Rightarrow>
               let st3 = called a ''decimals'' st2 in
               (case read_decimals (decimals_call web3 a) raise_on_error of
                  Inl e \<Rightarrow> (Inl e, st3)
                | Inr dec_v \<Rightarrow>
                    let st4 = called a ''totalSupply'' st3 in
                    (case read_supply (totalSupply_call web3 a) raise_on_error of
                       Inl e \<Rightarrow> (Inl e, st4)
                     | Inr sup_v \<Rightarrow> (Inr (sym_v, name_v, dec_v, sup_v), st4)))))"

definition fetch_erc20_details ::
  "env \<Rightarrow> node \<Rightarrow> string \<Rightarrow> int \<Rightarrow> bool \<Rightarrow> lru_cache option \<Rightarrow> int option \<Rightarrow> state
     \<Rightarrow> (error + token_details) \<times> lru_cache option \<times> state" where
  "fetch_erc20_details env web3 token_address max_str_length raise_on_error cache chain_id st =
     (case cache_lookup env web3 token_address cache chain_id st of
        (Inl e, cache1, st1) \<Rightarrow> (Inl e, cache1, st1)
      | (Inr (Hit cached), cache1, st1) \<Rightarrow> (Inr cached, cache1, st1)
      | (Inr (Miss erc_20 key), cache1, st1) \<Rightarrow>
          (case read_fields web3 (address erc_20) max_str_length raise_on_error st1 of
             (Inl e, st2) \<Rightarrow> (Inl e, cache1, st2)
           | (Inr (sym_v, name_v, dec_v, sup_v), st2) \<Rightarrow>
               let token_details = \<lparr>contract = erc_20, name = name_v, symbol = sym_v,
                                    total_supply = sup_v, decimals = Some dec_v\<rparr> in
               (case cache1 of
                  None \<Rightarrow> (Inr token_details, None, st2)
                | Some c \<Rightarrow>
                    (case cache_setitem c key
                            \<lparr>entry_name = name_v, entry_symbol = sym_v,
                             entry_supply = sup_v, entry_decimals = Some dec_v\<rparr> of
                       Inl e \<Rightarrow> (Inl e, Some c, st2)
                     | Inr c' \<Rightarrow> (Inr token_details, Some c', st2)))))"

section \<open>True division of ints\<close>

text \<open>
  \<open>a / b\<close> on two ints is a float: the IEEE 754 double nearest to the exact quotient, ties
  to even, \<open>ZeroDivisionError\<close> for a zero divisor and \<open>OverflowError\<close> when the rounded
  quotient is beyond the largest double.  A float is kept as the rational it denotes.
  \<open>bit_length\<close> is \<open>int.bit_length\<close>; \<open>scaled a b e\<close> is the fraction \<open>a / (b * 2^e)\<close>;
  the quotient is rounded to 53 bits at exponent \<open>e\<close>, and at \<open>-1074\<close> at the lowest.
\<close>

function bit_length :: "nat \<Rightarrow> nat" where
  "bit_length n = (if n = 0 then 0 else Suc (bit_length (n div 2)))"
  by pat_completeness auto
termination
  by (relation "measure (\<lambda>n. n)") auto

declare bit_length.simps [simp del]

definition scaled :: "nat \<Rightarrow> nat \<Rightarrow> int \<Rightarrow> nat \<times> nat" where
  "scaled a b e = (if 0 \<le> e then (a, b * 2 ^ nat e) else (a * 2 ^ nat (- e), b))"

definition round_half_even :: "nat \<times> nat \<Rightarrow> nat" where
  "round_half_even f =
     (case f of (n, d) \<Rightarrow>
        let q = n div d; r = n mod d in
        if d < 2 * r \<or> (2 * r = d \<and> odd q) then q + 1 else q)"

definition nat_truediv :: "nat \<Rightarrow> nat \<Rightarrow> error + rat" where
  "nat_truediv a b =
     (if a = 0 then Inr 0
      else
        let e0 = int (bit_length a) - int (bit_length b) - 53;
            e1 = (case scaled a b e0 of (n, d) \<Rightarrow> if 2 ^ 53 * d \<le> n then e0 + 1 else e0);
            e = max e1 (- 1074);
            m = round_half_even (scaled a b e)
        in if 971 < e \<or> (e = 971 \<and> 2 ^ 53 \<le> m) then Inl OverflowError
           else Inr (if 0 \<le> e then of_nat (m * 2 ^ nat e)
                     else of_nat m / of_nat (2 ^ nat (- e))))"

definition int_truediv :: "int \<Rightarrow> int \<Rightarrow> error + rat" where
  "int_truediv a b =
     (if b = 0 then Inl ZeroDivisionError
      else
        (case nat_truediv (nat \<bar>a\<bar>) (nat \<bar>b\<bar>) of
           Inl e \<Rightarrow> Inl e
         | Inr q \<Rightarrow> Inr (if (a < 0) \<noteq> (b < 0) then - q else q)))"

section \<open>\<open>swap.py\<close>: confirmation and the Swap event\<close>

record log_entry =
  topics :: "string list"
  data :: string

record receipt =
  status :: int
  transactionHash :: string
  logs :: "log_entry list"

text \<open>
  \<open>next((log for log in tx_receipt.logs if log.topics[0] == swap_event_signature), None)\<close>:
  the generator tests the logs in order and stops at the first match; \<open>log.topics[0]\<close>
  raises \<open>IndexError\<close> on a log without topics.
\<close>

fun swap_event :: "string \<Rightarrow> log_entry list \<Rightarrow> error + log_entry option" where
  "swap_event swap_event_signature [] = Inr None"
| "swap_event swap_event_signature (l # ls) =
     (case topics l of
        [] \<Rightarrow> Inl IndexError
      | t # _ \<Rightarrow>
          if t = swap_event_signature then Inr (Some l)
          else swap_event swap_event_signature ls)"

text \<open>
  The decoded event is \<open>(amount0, amount1, sqrtPriceX96, liquidity)\<close>;
  \<open>amount_out\<close> is \<open>decoded_event[0] if int(decoded_event[0]) < 0 else decoded_event[1]\<close>
  and the printed value is \<open>abs(amount_out / 10 ** base.decimals)\<close>.
\<close>

definition amount_out :: "int \<times> int \<times> int \<times> int \<Rightarrow> int" where
  "amount_out decoded_event =
     (case decoded_event of (amount0, amount1, _) \<Rightarrow> if amount0 < 0 then amount0 else amount1)"

definition actual_amount_out :: "nat \<Rightarrow> int \<Rightarrow> error + rat" where
  "actual_amount_out base_decimals amount =
     (case int_truediv amount (10 ^ base_decimals) of
        Inl e \<Rightarrow> Inl e
      | Inr x \<Rightarrow> Inr \<bar>x\<bar>)"

text \<open>The lines the script prints.\<close>

datatype message =
    TransactionSuccessful string
  | ActualAmountOut rat
  | NoSwapEventFound
  | NotMinedWithinTimeout
  | ErrorOccurred error

text \<open>
  The body of the \<open>try\<close> after the wait: what was printed, and the exception that ended
  it, if any.  \<open>decode\<close> is \<open>web3.codec.decode\<close> on the four types, \<open>None\<close> when it
  rejects the data.
\<close>

definition check_receipt ::
  "(string \<Rightarrow> (int \<times> int \<times> int \<times> int) option) \<Rightarrow> string \<Rightarrow> nat \<Rightarrow> receipt
     \<Rightarrow> message list \<times> error option" where
  "check_receipt decode swap_event_signature base_decimals tx_receipt =
     (if status tx_receipt = 1 then
        let printed = [TransactionSuccessful (transactionHash tx_receipt)] in
        (case swap_event swap_event_signature (logs tx_receipt) of
           Inl e \<Rightarrow> (printed, Some e)
         | Inr None \<Rightarrow> (printed @ [NoSwapEventFound], None)
         | Inr (Some ev) \<Rightarrow>
             (case decode (data ev) of
                None \<Rightarrow> (printed, Some DecodingError)
              | Some decoded_event \<Rightarrow>
                  (case actual_amount_out base_decimals (amount_out decoded_event) of
                     Inl e \<Rightarrow> (printed, Some e)
                   | Inr x \<Rightarrow> (printed @ [ActualAmountOut x], None))))
      else
        ([], Some (Exception (''Transaction failed with hash: '' @ transactionHash tx_receipt))))"

text \<open>
  The two handlers, and the whole \<open>try\<close> statement given what
  \<open>wait_for_transaction_receipt(tx_hash, timeout=120)\<close> did: returned a receipt, or raised
  (\<open>TimeExhausted\<close> when no receipt came within the timeout).
\<close>

definition handler :: "error \<Rightarrow> message" where
  "handler e = (if e = TimeExhausted then NotMinedWithinTimeout else ErrorOccurred e)"

definition confirm_swap ::
  "(string \<Rightarrow> (int \<times> int \<times> int \<times> int) option) \<Rightarrow> string \<Rightarrow> nat \<Rightarrow> error + receipt
     \<Rightarrow> message list" where
  "confirm_swap decode swap_event_signature base_decimals waited =
     (case waited of
        Inl e \<Rightarrow> [handler e]
      | Inr tx_receipt \<Rightarrow>
          (case check_receipt decode swap_event_signature base_decimals tx_receipt of
             (printed, None) \<Rightarrow> printed
           | (printed, Some e) \<Rightarrow> printed @ [handler e]))"

text \<open>
  The script as it runs: \<open>web3.eth.wait_for_transaction_receipt(tx_hash, timeout=120)\<close> is
  a call into the library, taken as a parameter; \<open>None\<close> stands for a call that never
  comes back.  The script goes on only when the call has returned or raised.
\<close>

definition confirm ::
  "(string \<Rightarrow> nat \<Rightarrow> (error + receipt) option)
     \<Rightarrow> (string \<Rightarrow> (int \<times> int \<times> int \<times> int) option) \<Rightarrow> string \<Rightarrow> nat \<Rightarrow> string
     \<Rightarrow> message list option" where
  "confirm wait_for_transaction_receipt decode swap_event_signature base_decimals tx_hash =
     (case wait_for_transaction_receipt tx_hash 120 of
        None \<Rightarrow> None
      | Some waited \<Rightarrow> Some (confirm_swap decode swap_event_signature base_decimals waited))"

text \<open>
  The three outcomes as they show in the output: the success line, the error line of the
  exception that the script raises for a receipt whose status is not 1 (its message starts
  with \<open>Transaction failed with hash: \<close>), the timeout line.
\<close>

fun is_success :: "message \<Rightarrow> bool" where
  "is_success (TransactionSuccessful _) = True"
| "is_success _ = False"

fun is_failure :: "message \<Rightarrow> bool" where
  "is_failure (ErrorOccurred (Exception msg)) = startswith msg ''Transaction failed with hash: ''"
| "is_failure _ = False"

definition mined_success :: "message list \<Rightarrow> bool" where
  "mined_success printed = list_ex is_success printed"

definition mined_failure :: "message list \<Rightarrow> bool" where
  "mined_failure printed = list_ex is_failure printed"

definition timed_out :: "message list \<Rightarrow> bool" where
  "timed_out printed = list_ex (\<lambda>m. m = NotMinedWithinTimeout) printed"

section \<open>A concrete setting\<close>

text \<open>
  One environment, node and token to evaluate the model on: the \<open>abi\<close> directory holds
  the one file \<open>ERC20.json\<close>, so that the empty name and \<open>.\<close> name the directory itself,
  a name below \<open>ERC20.json\<close> goes through a file that is not a directory, and any other
  name is not found; the node is on chain 1 and answers all four reads of the token.
  \<open>DEFAULT_TOKEN_CACHE\<close> is \<open>cachetools.LRUCache(1024)\<close>, empty at import.
\<close>

definition demo_hash :: "int \<times> string \<Rightarrow> int" where
  "demo_hash p = fst p + int (length (snd p))"

definition demo_env :: env where
  "demo_env =
     \<lparr>open_abi = (\<lambda>f. if f = ''ERC20.json'' then Inr ''[]''
                     else if f = [] \<or> f = ''.'' then Inl (IsADirectoryError f)
                     else if startswith f ''ERC20.json/'' then Inl (NotADirectoryError f)
                     else Inl (FileNotFoundError f)),
      json_load = (\<lambda>t. Inr (Abi t)),
      to_checksum_address = Some,
      py_hash = demo_hash\<rparr>"

definition demo_node :: node where
  "demo_node =
     \<lparr>eth_chain_id = Inr 1,
      symbol_call = (\<lambda>_. Returned ''DAI''),
      name_call = (\<lambda>_. Returned ''Dai Stablecoin''),
      decimals_call = (\<lambda>_. Returned 18),
      totalSupply_call = (\<lambda>_. Returned 1000000)\<rparr>"

definition demo_token :: string where
  "demo_token = ''0x6B175474E89094C44Da98b954EedeAC495271d0F''"

definition DEFAULT_TOKEN_CACHE :: lru_cache where
  "DEFAULT_TOKEN_CACHE = \<lparr>maxsize = 1024, items = []\<rparr>"

definition fresh :: state where
  "fresh = \<lparr>rpc_log = [], abi_cache = []\<rparr>"

text \<open>
  For the swap: the topic of the pool's \<open>Swap\<close> event, a decoder that answers with the
  amounts \<open>-500000\<close> and \<open>500100\<close>, and a receipt.
\<close>

definition demo_signature :: string where
  "demo_signature = ''0xc42079f94a6350d7e6235f29174924f928cc2ac818eb64fed8004e115fbcca67''"

definition demo_decode :: "string \<Rightarrow> (int \<times> int \<times> int \<times> int) option" where
  "demo_decode d = Some (- 500000, 500100, 79228162514264337593543950336, 1000000)"

definition demo_receipt :: "int \<Rightarrow> log_entry list \<Rightarrow> receipt" where
  "demo_receipt s ls = \<lparr>status = s, transactionHash = ''0x5c50'', logs = ls\<rparr>"

text \<open>
  A library call that comes back at once with a given answer, whatever the transaction and
  the timeout.
\<close>

definition demo_wait :: "error + receipt \<Rightarrow> string \<Rightarrow> nat \<Rightarrow> (error + receipt) option" where
  "demo_wait answer tx_hash timeout = Some answer"

text \<open>
  The outcome of the confirmation as the specification names it, read off the output: one
  entry for each of the three reports that is present.
\<close>

datatype outcome = MinedSuccess | MinedFailure | TimedOut

definition outcomes :: "message list \<Rightarrow> outcome list" where
  "outcomes printed =
     (if mined_success printed then [MinedSuccess] else [])
     @ (if mined_failure printed then [MinedFailure] else [])
     @ (if timed_out printed then [TimedOut] else [])"


section \<open>Digit counts\<close>

lemma ndigits_le: "0 < k \<Longrightarrow> n < 10 ^ k \<Longrightarrow> ndigits n \<le> k"
proof (induction k arbitrary: n)
  case 0 then show ?case by simp
next
  case (Suc k)
  show ?case
  proof (cases "n < 10")
    case True then show ?thesis by (simp add: ndigits.simps)
  next
    case False
    then have k: "0 < k" using Suc.prems by (cases k) auto
    have "n div 10 < 10 ^ k" using Suc.prems by (simp add: less_mult_imp_div_less mult.commute)
    then have "ndigits (n div 10) \<le> k" using Suc.IH k by blast
    then show ?thesis using False by (subst ndigits.simps) simp
  qed
qed

lemma ndigits_gt: "10 ^ k \<le> n \<Longrightarrow> k < ndigits n"
proof (induction k arbitrary: n)
  case 0 then show ?case by (subst ndigits.simps) simp
next
  case (Suc k)
  have "(10::nat) \<le> 10 ^ Suc k" by simp
  then have n10: "\<not> n < 10" using Suc.prems by linarith
  have "10 ^ k \<le> n div 10" using Suc.prems by (simp add: less_eq_div_iff_mult_less_eq mult.commute)
  then have "k < ndigits (n div 10)" using Suc.IH by blast
  then show ?case using n10 by (subst ndigits.simps) simp
qed

lemma ndigits_eq: "10 ^ k \<le> n \<Longrightarrow> n < 10 ^ Suc k \<Longrightarrow> ndigits n = Suc k"
  using ndigits_le [of "Suc k" n] ndigits_gt [of k n] by simp

lemma ndigits_mult_pow: "0 < c \<Longrightarrow> ndigits (c * 10 ^ d) = ndigits c + d"
proof (induction d)
  case 0 then show ?case by simp
next
  case (Suc d)
  have "1 * 10 \<le> c * 10 ^ d * 10" using Suc.prems by (intro mult_le_mono) auto
  then have "\<not> c * 10 ^ Suc d < 10" by (simp add: mult.assoc)
  moreover have "c * 10 ^ Suc d div 10 = c * 10 ^ d" by simp
  ultimately show ?case using Suc by (subst ndigits.simps) simp
qed

section \<open>Exact quotients and exact rounding\<close>

lemma strip_zeros_pow:
  "0 < c \<Longrightarrow> e + int k \<le> ideal \<Longrightarrow> strip_zeros (c * 10 ^ k) e ideal = strip_zeros c (e + int k) ideal"
proof (induction k arbitrary: e)
  case 0 then show ?case by simp
next
  case (Suc k)
  have "strip_zeros (c * 10 ^ Suc k) e ideal = strip_zeros (c * 10 ^ k) (e + 1) ideal"
    using Suc.prems by (subst strip_zeros.simps) simp
  also have "\<dots> = strip_zeros c (e + 1 + int k) ideal"
    using Suc.prems by (intro Suc.IH) auto
  also have "e + 1 + int k = e + int (Suc k)" by simp
  finally show ?case .
qed

lemma strip_zeros_result:
  "strip_zeros c e ideal = (c', e') \<Longrightarrow> e \<le> ideal \<Longrightarrow>
     e \<le> e' \<and> e' \<le> ideal \<and> c' * 10 ^ nat (e' - e) = c"
proof (induction c e ideal rule: strip_zeros.induct)
  case (1 coeff e ideal)
  show ?case
  proof (cases "e < ideal \<and> coeff mod 10 = 0")
    case True
    then have rec: "strip_zeros (coeff div 10) (e + 1) ideal = (c', e')"
      using "1.prems"(1) by (subst (asm) strip_zeros.simps) simp
    have ih: "e + 1 \<le> e' \<and> e' \<le> ideal \<and> c' * 10 ^ nat (e' - (e + 1)) = coeff div 10"
      using "1.IH" [OF True rec] True by simp
    have "nat (e' - e) = Suc (nat (e' - (e + 1)))" using ih by linarith
    then have "c' * 10 ^ nat (e' - e) = (coeff div 10) * 10" using ih by simp
    also have "\<dots> = coeff" using True by (simp add: mod_0_imp_dvd)
    finally show ?thesis using ih by simp
  next
    case False
    then have "(c', e') = (coeff, e)" using "1.prems"(1) by (subst (asm) strip_zeros.simps) (auto split: if_splits)
    then show ?thesis using "1.prems"(2) by simp
  qed
qed

lemma dec_to_int_represents:
  "represents n e r \<Longrightarrow> dec_to_int \<lparr>dsign = False, dint = n, dexp = e\<rparr> = int r"
  by (auto simp: represents_def dec_to_int_def)

lemma represents_scaled:
  assumes "m \<le> d" and "c * 10 ^ (d - m) = r" and "j \<le> d"
  shows "represents (c * 10 ^ j) (int (d - j) - int m) r"
proof (cases "m \<le> d - j")
  case True
  then have "nat (int (d - j) - int m) = d - j - m" by simp
  moreover have "j + (d - j - m) = d - m" using True assms by linarith
  then have "(10::nat) ^ j * 10 ^ (d - j - m) = 10 ^ (d - m)"
    by (simp only: flip: power_add)
  then have "c * 10 ^ j * 10 ^ (d - j - m) = c * 10 ^ (d - m)"
    by (simp only: mult.assoc)
  moreover have "0 \<le> int (d - j) - int m" using True by linarith
  ultimately show ?thesis using assms(2) by (simp only: represents_def if_True)
next
  case False
  then have neg: "\<not> 0 \<le> int (d - j) - int m" by simp
  have n: "nat (- (int (d - j) - int m)) = m - (d - j)" by simp
  have "(d - m) + (m - (d - j)) = j" using False assms by linarith
  then have "(10::nat) ^ (d - m) * 10 ^ (m - (d - j)) = 10 ^ j"
    by (simp only: flip: power_add)
  then have "c * 10 ^ (d - m) * 10 ^ (m - (d - j)) = c * 10 ^ j"
    by (simp only: mult.assoc)
  then show ?thesis using neg n assms(2) by (simp only: represents_def if_False)
qed

lemma dec_fix_small:
  assumes "0 < n" and "ndigits n \<le> 28" and "- 1000 \<le> e" and "e \<le> 1000"
  shows "dec_fix \<lparr>dsign = s, dint = n, dexp = e\<rparr> = Inr \<lparr>dsign = s, dint = n, dexp = e\<rparr>"
  using assms by (simp add: dec_fix_def Let_def prec_def Etop_def Etiny_def Emax_def Emin_def)

lemma dec_fix_exact:
  assumes c: "0 < c" and len: "ndigits c \<le> 28" and lo: "- 1000 \<le> e" and hi: "e + int j \<le> 1000"
  shows "\<exists>j'\<le>j. dec_fix \<lparr>dsign = s, dint = c * 10 ^ j, dexp = e\<rparr>
            = Inr \<lparr>dsign = s, dint = c * 10 ^ j', dexp = e + int (j - j')\<rparr>"
proof (cases "ndigits c + j \<le> 28")
  case True
  have "dec_fix \<lparr>dsign = s, dint = c * 10 ^ j, dexp = e\<rparr>
          = Inr \<lparr>dsign = s, dint = c * 10 ^ j, dexp = e\<rparr>"
    using c True lo hi by (intro dec_fix_small) (simp_all add: ndigits_mult_pow)
  then show ?thesis by (intro exI [of _ j]) simp
next
  case False
  define k where "k = ndigits c + j - 28"
  have k: "0 < k" "k \<le> j" "int (ndigits c + j) - 28 = int k"
    using False len by (simp_all add: k_def)
  have pos: "c * 10 ^ j \<noteq> 0" using c by simp
  have split: "c * 10 ^ j = c * 10 ^ (j - k) * 10 ^ k"
    using k by (simp add: mult.assoc flip: power_add)
  have q: "c * 10 ^ j div 10 ^ k = c * 10 ^ (j - k)" by (subst split) simp
  have r: "c * 10 ^ j mod 10 ^ k = 0" by (subst split) simp
  have nd: "\<not> ndigits (c * 10 ^ j) < k" using c by (simp add: ndigits_mult_pow k_def)
  have emin: "int (ndigits (c * 10 ^ j)) + e - prec = e + int k"
    using k c by (simp add: ndigits_mult_pow prec_def)
  have "dec_fix \<lparr>dsign = s, dint = c * 10 ^ j, dexp = e\<rparr>
          = Inr \<lparr>dsign = s, dint = c * 10 ^ (j - k), dexp = e + int k\<rparr>"
    unfolding dec_fix_def Let_def decimal.simps emin
    using pos k lo hi q r nd by (simp add: Etop_def Etiny_def Emax_def Emin_def prec_def)
  moreover have "j - (j - k) = k" using k by simp
  ultimately show ?thesis by (intro exI [of _ "j - k"]) simp
qed

lemma ndigits_one: "ndigits (Suc 0) = Suc 0"
  by (subst ndigits.simps) simp

lemma ndigits_pow10: "ndigits (10 ^ d) = Suc d"
  using ndigits_mult_pow [of 1 d] by (simp add: ndigits_one)

lemma dec_of_int_nat: "dec_of_int (int r) = \<lparr>dsign = False, dint = r, dexp = 0\<rparr>"
  by (simp add: dec_of_int_def)

lemma dec_of_int_pow10: "dec_of_int (10 ^ d) = \<lparr>dsign = False, dint = 10 ^ d, dexp = 0\<rparr>"
  using dec_of_int_nat [of "10 ^ d"] by simp

lemma convert_to_decimals_exact:
  assumes r: "0 < r" "r < 10 ^ 28" and d: "d \<le> 18"
  shows "\<exists>c e. convert_to_decimals d (int r) = Inr \<lparr>dsign = False, dint = c, dexp = e\<rparr>
            \<and> 0 < c \<and> ndigits c \<le> 28 \<and> - int d \<le> e \<and> e \<le> 0 \<and> c * 10 ^ nat (e + int d) = r"
proof -
  have len: "ndigits r \<le> 28" using r by (intro ndigits_le) auto
  define sh where "sh = d + 30 - ndigits r"
  have sh: "int (ndigits (10 ^ d)) - int (ndigits r) + prec + 1 = int sh"
    using len by (simp add: ndigits_pow10 prec_def sh_def)
  have shd: "d \<le> sh" using len by (simp add: sh_def)
  have split: "r * 10 ^ sh = r * 10 ^ (sh - d) * 10 ^ d"
    using shd by (simp add: mult.assoc flip: power_add)
  have q: "r * 10 ^ sh div 10 ^ d = r * 10 ^ (sh - d)" by (subst split) simp
  have m: "r * 10 ^ sh mod 10 ^ d = 0" by (subst split) simp
  have "strip_zeros (r * 10 ^ (sh - d)) (- int sh) 0 = strip_zeros r (- int sh + int (sh - d)) 0"
    using r shd by (intro strip_zeros_pow) auto
  also have "- int sh + int (sh - d) = - int d" using shd by simp
  finally have strip: "strip_zeros (r * 10 ^ (sh - d)) (- int sh) 0 = strip_zeros r (- int d) 0" .
  obtain c e where ce: "strip_zeros r (- int d) 0 = (c, e)" by (cases "strip_zeros r (- int d) 0")
  have res: "- int d \<le> e \<and> e \<le> 0 \<and> c * 10 ^ nat (e - (- int d)) = r"
    using strip_zeros_result [OF ce] by simp
  then have val: "c * 10 ^ nat (e + int d) = r" by simp
  have cpos: "0 < c" using val r by (cases c) auto
  have "c * 1 \<le> c * 10 ^ nat (e + int d)" by (intro mult_le_mono) auto
  then have "c < 10 ^ 28" using val r by simp
  then have clen: "ndigits c \<le> 28" by (intro ndigits_le) auto
  have fx: "dec_fix \<lparr>dsign = False, dint = c, dexp = e\<rparr> = Inr \<lparr>dsign = False, dint = c, dexp = e\<rparr>"
    using cpos clen res d by (intro dec_fix_small) auto
  have "convert_to_decimals d (int r) = Inr \<lparr>dsign = False, dint = c, dexp = e\<rparr>"
    unfolding convert_to_decimals_def dec_truediv_def dec_of_int_nat dec_of_int_pow10 Let_def decimal.simps
    using r by (simp add: sh q m strip ce fx)
  then show ?thesis using cpos clen res val by blast
qed

lemma roundtrip_exact_nat:
  assumes r: "r < 10 ^ 28" and d: "d \<le> 18"
  shows "\<exists>x. convert_to_decimals d (int r) = Inr x \<and> exact_quotient x (int r) d
             \<and> convert_to_raw d x = Inr (int r)"
proof (cases "r = 0")
  case True
  have "convert_to_decimals d 0 = Inr \<lparr>dsign = False, dint = 0, dexp = 0\<rparr>"
    using dec_of_int_nat [of 0]
    by (simp add: convert_to_decimals_def dec_truediv_def dec_fix_def dec_of_int_pow10
        Etiny_def Emin_def Emax_def prec_def)
  moreover have "convert_to_raw d \<lparr>dsign = False, dint = 0, dexp = 0\<rparr> = Inr 0"
    by (simp add: convert_to_raw_def dec_mul_def dec_fix_def dec_of_int_pow10 dec_to_int_def
        Etiny_def Emin_def Emax_def prec_def)
  ultimately show ?thesis using True by (simp add: exact_quotient_def)
next
  case False
  then obtain c e where x: "convert_to_decimals d (int r) = Inr \<lparr>dsign = False, dint = c, dexp = e\<rparr>"
    and c: "0 < c" "ndigits c \<le> 28" and e: "- int d \<le> e" "e \<le> 0" and val: "c * 10 ^ nat (e + int d) = r"
    using convert_to_decimals_exact [of r d] r d by auto
  obtain j where j: "j \<le> d" and fx: "dec_fix \<lparr>dsign = False, dint = c * 10 ^ d, dexp = e\<rparr>
            = Inr \<lparr>dsign = False, dint = c * 10 ^ j, dexp = e + int (d - j)\<rparr>"
    using dec_fix_exact [of c e d False] c e d by auto
  define m where "m = nat (- e)"
  have m: "m \<le> d" "e = - int m" using e by (simp_all add: m_def)
  have "nat (e + int d) = d - m" using m by simp
  then have "c * 10 ^ (d - m) = r" using val by simp
  then have "represents (c * 10 ^ j) (int (d - j) - int m) r"
    using m j by (intro represents_scaled) auto
  then have "dec_to_int \<lparr>dsign = False, dint = c * 10 ^ j, dexp = e + int (d - j)\<rparr> = int r"
    using m by (intro dec_to_int_represents) (simp add: add.commute)
  then have raw: "convert_to_raw d \<lparr>dsign = False, dint = c, dexp = e\<rparr> = Inr (int r)"
    using fx by (simp add: convert_to_raw_def dec_mul_def dec_of_int_pow10)
  have "int c * 10 ^ nat (e + int d) = int r"
    using val by (metis of_nat_mult of_nat_numeral of_nat_power)
  then have "exact_quotient \<lparr>dsign = False, dint = c, dexp = e\<rparr> (int r) d"
    using e by (simp add: exact_quotient_def)
  then show ?thesis using x raw by blast
qed

section \<open>Amount conversion round trip\<close>

lemma convert_to_decimals_rounds:
  "convert_to_decimals 18 10000000000000000000000000001
     = Inr \<lparr>dsign = False, dint = 1000000000000000000000000000, dexp = - 17\<rparr>"
proof -
  have a: "dec_of_int 10000000000000000000000000001
             = \<lparr>dsign = False, dint = 10000000000000000000000000001, dexp = 0\<rparr>"
    by (simp add: dec_of_int_def)
  have n1: "ndigits 10000000000000000000000000001 = 29"
    using ndigits_eq [of 28 10000000000000000000000000001] by simp
  have n2: "ndigits 1000000000000000000 = 19"
    using ndigits_pow10 [of 18] by simp
  have s2: "strip_zeros 10000000000000000000000000001 (- 18) 0
              = (10000000000000000000000000001, - 18)"
    by (subst strip_zeros.simps) simp
  have s1: "strip_zeros 100000000000000000000000000010 (- 19) 0
              = (10000000000000000000000000001, - 18)"
    by (subst strip_zeros.simps) (simp add: s2)
  have f: "dec_fix \<lparr>dsign = False, dint = 10000000000000000000000000001, dexp = - 18\<rparr>
             = Inr \<lparr>dsign = False, dint = 1000000000000000000000000000, dexp = - 17\<rparr>"
    by (simp add: dec_fix_def n1 prec_def Etop_def Etiny_def Emax_def Emin_def Let_def)
  show ?thesis
    unfolding convert_to_decimals_def dec_truediv_def a dec_of_int_pow10 Let_def decimal.simps
    by (simp add: n1 n2 prec_def s1 f)
qed

lemma convert_to_raw_rounded:
  "convert_to_raw 18 \<lparr>dsign = False, dint = 1000000000000000000000000000, dexp = - 17\<rparr>
     = Inr 10000000000000000000000000000"
proof -
  have n: "ndigits (1000000000000000000000000000 * 10 ^ 18) = 46"
    using ndigits_pow10 [of 45] by simp
  show ?thesis
    unfolding convert_to_raw_def dec_mul_def dec_of_int_pow10 decimal.simps dec_fix_def Let_def n
    by (simp add: prec_def Etop_def Etiny_def Emax_def Emin_def dec_to_int_def)
qed

text \<open>
  C1 (as the code has it): for every raw amount \<open>0 \<le> r < 10^28\<close> (at most 28 decimal
  digits, the precision of the default decimal context) and every decimal count \<open>d \<le> 18\<close>,
  \<open>convert_to_decimals\<close> returns the decimal that is exactly \<open>r / 10^d\<close>, and
  \<open>convert_to_raw\<close> takes it back to \<open>r\<close>; neither raises.
\<close>

theorem roundtrip_exact:
  "0 \<le> raw_amount \<Longrightarrow> raw_amount < 10 ^ 28 \<Longrightarrow> d \<le> 18
     \<Longrightarrow> \<exists>x. convert_to_decimals d raw_amount = Inr x \<and> exact_quotient x raw_amount d
             \<and> convert_to_raw d x = Inr raw_amount
             \<and> roundtrip d raw_amount = Inr raw_amount"
proof -
  assume a: "0 \<le> raw_amount" "raw_amount < 10 ^ 28" "d \<le> 18"
  then have "nat raw_amount < 10 ^ 28" by (simp add: nat_less_iff)
  from roundtrip_exact_nat [OF this a(3)] a(1)
  obtain x where "convert_to_decimals d raw_amount = Inr x" "exact_quotient x raw_amount d"
    "convert_to_raw d x = Inr raw_amount" by auto
  then show ?thesis by (auto simp: roundtrip_def)
qed

theorem roundtrip_exact_witness:
  "(0::int) \<le> 1500000 \<and> (1500000::int) < 10 ^ 28 \<and> (6::nat) \<le> 18
   \<and> roundtrip 6 1500000 = Inr 1500000"
  using roundtrip_exact [of 1500000 6] by auto

text \<open>
  C1 as stated fails: with 18 decimals the 29-digit raw amount \<open>10^28 + 1\<close> is rounded to
  28 significant digits by the division and comes back as \<open>10^28\<close>.
\<close>

theorem roundtrip_counterexample:
  "roundtrip 18 10000000000000000000000000001 = Inr 10000000000000000000000000000
   \<and> roundtrip 18 10000000000000000000000000001 \<noteq> Inr 10000000000000000000000000001"
  by (simp add: roundtrip_def convert_to_decimals_rounds convert_to_raw_rounded)

section \<open>The ABI repository is local\<close>

lemma map_of_remove_key_append: "map_of (remove_key k xs @ [(k, v)]) k = Some v"
  by (induction xs) (auto simp: remove_key_def)

lemma map_of_append_absent: "map_of xs k = None \<Longrightarrow> map_of (xs @ [(k, v)]) k = Some v"
  by (simp add: map_add_def)

lemma map_of_drop_absent: "map_of xs k = None \<Longrightarrow> map_of (drop n xs) k = None"
proof -
  assume "map_of xs k = None"
  then have "k \<notin> fst ` set xs" by (simp add: map_of_eq_None_iff)
  moreover have "set (drop n xs) \<subseteq> set xs" by (rule set_drop_subset)
  ultimately have "k \<notin> fst ` set (drop n xs)" by blast
  then show ?thesis by (simp add: map_of_eq_None_iff)
qed

lemma map_of_tl_absent: "map_of xs k = None \<Longrightarrow> map_of (tl xs) k = None"
  using map_of_drop_absent [of xs k 1] by (simp add: drop_Suc)











section \<open>Cache keys\<close>

text \<open>
  C8 (as the code has it): the key is a function of the chain id and the lower-cased
  address, so two addresses that both pass the check and differ only in letter case get
  the same key; the check that is enforced is that \<open>chain_id\<close> is an int and the address a
  str starting with \<open>0x\<close> (lower-case \<open>x\<close>), and nothing more: any other input raises
  \<open>AssertionError\<close>.
\<close>

theorem generate_cache_key_case_insensitive:
  "(startswith a ''0x'' \<and> startswith b ''0x'' \<and> lower a = lower b \<longrightarrow>
      generate_cache_key h (PyInt c) (PyStr a) = Inr (h (c, lower a))
      \<and> generate_cache_key h (PyInt c) (PyStr b) = generate_cache_key h (PyInt c) (PyStr a))
   \<and> (\<not> (\<exists>c' a'. chain_id = PyInt c' \<and> addr = PyStr a' \<and> startswith a' ''0x'') \<longrightarrow>
        generate_cache_key h chain_id addr = Inl AssertionError)
   \<and> ((\<exists>k. generate_cache_key h chain_id addr = Inr k) \<longleftrightarrow>
        (\<exists>c' a'. chain_id = PyInt c' \<and> addr = PyStr a' \<and> startswith a' ''0x''))"
  by (auto simp: generate_cache_key_def split: pyval.splits)

theorem generate_cache_key_case_insensitive_witness:
  "startswith ''0xABC'' ''0x'' \<and> startswith ''0xabc'' ''0x'' \<and> lower ''0xABC'' = lower ''0xabc''
   \<and> generate_cache_key demo_hash (PyInt 1) (PyStr ''0xabc'')
        = generate_cache_key demo_hash (PyInt 1) (PyStr ''0xABC'')
   \<and> generate_cache_key demo_hash (PyInt 1) (PyStr ''0xABC'') = Inr 6"
proof -
  have h: "startswith ''0xABC'' ''0x'' \<and> startswith ''0xabc'' ''0x'' \<and> lower ''0xABC'' = lower ''0xabc''"
    by (simp add: startswith_def lower_def lower_char_def)
  show ?thesis
    using h generate_cache_key_case_insensitive [of "''0xABC''" "''0xabc''" demo_hash 1 PyNone PyNone]
    by (simp add: demo_hash_def lower_def)
qed

text \<open>
  C8 as stated fails twice: \<open>0xzz\<close> is not hexadecimal and gets a key; \<open>0XAB\<close> and
  \<open>0xab\<close> differ only in letter case, and the first is rejected while the second gets a
  key.
\<close>

theorem generate_cache_key_counterexample:
  "generate_cache_key demo_hash (PyInt 1) (PyStr ''0xzz'') = Inr 5
   \<and> lower ''0XAB'' = lower ''0xab''
   \<and> generate_cache_key demo_hash (PyInt 1) (PyStr ''0XAB'') = Inl AssertionError
   \<and> generate_cache_key demo_hash (PyInt 1) (PyStr ''0xab'') = Inr 5"
  by (simp add: generate_cache_key_def startswith_def lower_def lower_char_def demo_hash_def)

section \<open>A failed resolution leaves the cache alone\<close>

lemma cache_get_miss:
  "cache_get c k = (None, c') \<Longrightarrow> c' = c \<and> map_of (items c) k = None"
  by (auto simp: cache_get_def split: option.splits)

lemma cache_lookup_error:
  "cache_lookup env web3 ta cache cid st = (Inl e, cache1, st1) \<Longrightarrow> cache1 = cache"
  by (auto simp: cache_lookup_def Let_def split: prod.splits sum.splits option.splits)

lemma cache_lookup_miss:
  "cache_lookup env web3 ta cache cid st = (Inr (Miss b k), cache1, st1) \<Longrightarrow> cache1 = cache"
  by (auto simp: cache_lookup_def Let_def dest: cache_get_miss
      split: prod.splits sum.splits option.splits)

text \<open>
  C10: whenever the resolution ends in an exception (in strict mode on a metadata read, or
  anywhere else), the cache it was given is returned exactly as it was: the lookup of a
  missing key changes nothing, and the one write comes after the four reads.
\<close>

theorem fetch_error_leaves_cache:
  "fetch_erc20_details env web3 token_address max_str_length raise_on_error cache chain_id st
     = (Inl e, cache', st') \<Longrightarrow> cache' = cache"
  by (auto simp: fetch_erc20_details_def Let_def
      dest: cache_lookup_error cache_lookup_miss
      split: prod.splits sum.splits option.splits lookup.splits)

section \<open>Strict mode\<close>

lemma demo_lookup_miss:
  "cache_lookup demo_env web3 demo_token (Some DEFAULT_TOKEN_CACHE) (Some 1) fresh
     = (Inr (Miss \<lparr>address = demo_token, contract_abi = Abi ''[]''\<rparr> 43),
        Some DEFAULT_TOKEN_CACHE, fresh\<lparr>abi_cache := [(''ERC20.json'', Abi ''[]'')]\<rparr>)"
proof -
  have key: "generate_cache_key (py_hash demo_env) (PyInt 1) (PyStr demo_token) = Inr 43"
    by (simp add: generate_cache_key_def demo_env_def demo_hash_def demo_token_def
        startswith_def lower_def)
  have abi: "get_abi_by_filename demo_env ''ERC20.json'' fresh
       = (Inr (Abi ''[]''), fresh\<lparr>abi_cache := [(''ERC20.json'', Abi ''[]'')]\<rparr>)"
    by (simp add: get_abi_by_filename_def demo_env_def fresh_def)
  have addr: "to_checksum_address demo_env demo_token = Some demo_token"
    by (simp add: demo_env_def)
  show ?thesis
    by (simp add: cache_lookup_def resolve_chain_id_def key abi addr cache_get_def
        DEFAULT_TOKEN_CACHE_def)
qed

lemma fetch_after_miss:
  assumes "cache_lookup env web3 ta cache cid st = (Inr (Miss erc_20 key), cache1, st1)"
    and "read_fields web3 (address erc_20) m r st1 = (res, st2)"
  shows "fetch_erc20_details env web3 ta m r cache cid st =
     (case res of
        Inl e \<Rightarrow> (Inl e, cache, st2)
      | Inr (sym_v, name_v, dec_v, sup_v) \<Rightarrow>
          (case cache of
             None \<Rightarrow> (Inr \<lparr>contract = erc_20, name = name_v, symbol = sym_v,
                            total_supply = sup_v, decimals = Some dec_v\<rparr>, None, st2)
           | Some c \<Rightarrow>
               (case cache_setitem c key \<lparr>entry_name = name_v, entry_symbol = sym_v,
                                          entry_supply = sup_v, entry_decimals = Some dec_v\<rparr> of
                  Inl e \<Rightarrow> (Inl e, Some c, st2)
                | Inr c' \<Rightarrow> (Inr \<lparr>contract = erc_20, name = name_v, symbol = sym_v,
                                   total_supply = sup_v, decimals = Some dec_v\<rparr>, Some c', st2))))"
  using assms cache_lookup_miss [OF assms(1)]
  by (simp add: fetch_erc20_details_def Let_def split: sum.splits prod.splits option.splits)

lemma demo_strict_symbol_missing:
  "fetch_erc20_details demo_env (demo_node\<lparr>symbol_call := (\<lambda>_. CallMissing)\<rparr>) demo_token 256 True
       (Some DEFAULT_TOKEN_CACHE) (Some 1) fresh
     = (Inl (NameError ''TokenDetailError''), Some DEFAULT_TOKEN_CACHE,
        \<lparr>rpc_log = [EthCall demo_token ''symbol''],
         abi_cache = [(''ERC20.json'', Abi ''[]'')]\<rparr>)"
proof -
  have "read_fields (demo_node\<lparr>symbol_call := (\<lambda>_. CallMissing)\<rparr>) demo_token 256 True
          (fresh\<lparr>abi_cache := [(''ERC20.json'', Abi ''[]'')]\<rparr>)
        = (Inl (NameError ''TokenDetailError''),
           \<lparr>rpc_log = [EthCall demo_token ''symbol''], abi_cache = [(''ERC20.json'', Abi ''[]'')]\<rparr>)"
    by (simp add: read_fields_def read_str_def called_def fresh_def Let_def)
  then show ?thesis
    using fetch_after_miss [OF demo_lookup_miss, of "demo_node\<lparr>symbol_call := (\<lambda>_. CallMissing)\<rparr>" 256 True]
    by simp
qed

text \<open>
  C2: in strict mode, with the symbol read failing by a recognised exception, the call
  ends in \<open>NameError\<close>: the name \<open>TokenDetailError\<close> is not bound in \<open>contracts.py\<close>.  No
  details are returned, the cache is untouched and only the symbol was asked for.
\<close>

theorem fetch_strict_symbol_missing:
  "fetch_erc20_details demo_env (demo_node\<lparr>symbol_call := (\<lambda>_. CallMissing)\<rparr>) demo_token 256 True
       (Some DEFAULT_TOKEN_CACHE) (Some 1) fresh
     = (Inl (NameError ''TokenDetailError''), Some DEFAULT_TOKEN_CACHE,
        \<lparr>rpc_log = [EthCall demo_token ''symbol''],
         abi_cache = [(''ERC20.json'', Abi ''[]'')]\<rparr>)"
  by (rule demo_strict_symbol_missing)

section \<open>Lenient mode\<close>

lemma cache_setitem_fits:
  "0 < maxsize c \<Longrightarrow> \<exists>c'. cache_setitem c key v = Inr c' \<and> map_of (items c') key = Some v"
  by (auto simp: cache_setitem_def map_of_remove_key_append
      intro!: map_of_append_absent map_of_drop_absent simp del: map_of_append)




section \<open>The overflow clauses\<close>



text \<open>The strict call on the token without symbol fails and hands \<open>DEFAULT_TOKEN_CACHE\<close> back
  as it was.\<close>

theorem fetch_error_leaves_cache_witness:
  "\<exists>e st'. fetch_erc20_details demo_env (demo_node\<lparr>symbol_call := (\<lambda>_. CallMissing)\<rparr>)
              demo_token 256 True (Some DEFAULT_TOKEN_CACHE) (Some 1) fresh
            = (Inl e, Some DEFAULT_TOKEN_CACHE, st')"
proof -
  obtain r c' st' where f:
    "fetch_erc20_details demo_env (demo_node\<lparr>symbol_call := (\<lambda>_. CallMissing)\<rparr>)
        demo_token 256 True (Some DEFAULT_TOKEN_CACHE) (Some 1) fresh = (r, c', st')"
    using prod_cases3 by blast
  then have r: "r = Inl (NameError ''TokenDetailError'')"
    using demo_strict_symbol_missing by simp
  then have "c' = Some DEFAULT_TOKEN_CACHE"
    using fetch_error_leaves_cache [of demo_env _ demo_token 256 True "Some DEFAULT_TOKEN_CACHE" "Some 1" fresh] f
    by blast
  then show ?thesis using f r by blast
qed

section \<open>Resolution from the cache\<close>

lemma map_of_lru_insert:
  assumes "map_of xs k = None"
  shows "map_of ((if P then tl xs else xs) @ [(k, v)]) k = Some v"
proof (cases P)
  case True
  then show ?thesis using map_of_append_absent [OF map_of_tl_absent [OF assms]] by (simp only: if_True)
next
  case False
  then show ?thesis using map_of_append_absent [OF assms] by (simp only: if_False)
qed

lemma get_abi_success:
  "get_abi_by_filename env f st = (Inr a, st') \<Longrightarrow>
     map_of (abi_cache st') f = Some a \<and> rpc_log st' = rpc_log st"
proof (cases "map_of (abi_cache st) f")
  case None
  assume g: "get_abi_by_filename env f st = (Inr a, st')"
  then have "abi_cache st' = (if 512 \<le> length (abi_cache st) then tl (abi_cache st) else abi_cache st) @ [(f, a)]"
    and "rpc_log st' = rpc_log st"
    using None by (auto simp: get_abi_by_filename_def split: sum.splits)
  moreover have "map_of ((if 512 \<le> length (abi_cache st) then tl (abi_cache st) else abi_cache st) @ [(f, a)]) f = Some a"
    by (rule map_of_lru_insert [OF None])
  ultimately show ?thesis by simp
next
  case (Some v)
  assume g: "get_abi_by_filename env f st = (Inr a, st')"
  then have "abi_cache st' = remove_key f (abi_cache st) @ [(f, a)]" and "rpc_log st' = rpc_log st"
    using Some by (auto simp: get_abi_by_filename_def)
  then show ?thesis using map_of_remove_key_append [of f "abi_cache st" a] by simp
qed

lemma get_abi_cached:
  "map_of (abi_cache st) f = Some a \<Longrightarrow>
     get_abi_by_filename env f st = (Inr a, st\<lparr>abi_cache := remove_key f (abi_cache st) @ [(f, a)]\<rparr>)"
  by (simp add: get_abi_by_filename_def)

lemma abi_cache_resolve_chain_id:
  "resolve_chain_id web3 cid st = (r, st') \<Longrightarrow> abi_cache st' = abi_cache st"
  by (auto simp: resolve_chain_id_def split: option.splits if_splits)

lemma abi_cache_read_fields:
  "abi_cache (snd (read_fields web3 a m r st)) = abi_cache st"
  by (simp add: read_fields_def called_def Let_def split: sum.splits)

lemma cache_lookup_Some_cases:
  assumes "cache_lookup env web3 ta (Some ch) cid st = (Inr lk, c1, s1)"
  shows "\<exists>c st0 a abi key.
           resolve_chain_id web3 cid st = (Inr c, st0)
         \<and> to_checksum_address env ta = Some a
         \<and> get_abi_by_filename env ''ERC20.json'' st0 = (Inr abi, s1)
         \<and> generate_cache_key (py_hash env) (PyInt c) (PyStr ta) = Inr key
         \<and> ((map_of (items ch) key = None \<and> lk = Miss \<lparr>address = a, contract_abi = abi\<rparr> key
                \<and> c1 = Some ch)
            \<or> (\<exists>v. map_of (items ch) key = Some v
                  \<and> lk = Hit \<lparr>contract = \<lparr>address = a, contract_abi = abi\<rparr>,
                              name = entry_name v, symbol = entry_symbol v,
                              total_supply = entry_supply v, decimals = entry_decimals v\<rparr>
                  \<and> c1 = Some (ch\<lparr>items := remove_key key (items ch) @ [(key, v)]\<rparr>)))"
  using assms
  by (auto simp: cache_lookup_def cache_get_def Let_def
      split: prod.splits sum.splits option.splits)

lemma cache_lookup_hit:
  assumes "resolve_chain_id web3 cid st = (Inr c, st0)"
    and "to_checksum_address env ta = Some a"
    and "get_abi_by_filename env ''ERC20.json'' st0 = (Inr abi, s1)"
    and "generate_cache_key (py_hash env) (PyInt c) (PyStr ta) = Inr key"
    and "map_of (items ch) key = Some v"
  shows "cache_lookup env web3 ta (Some ch) cid st
           = (Inr (Hit \<lparr>contract = \<lparr>address = a, contract_abi = abi\<rparr>,
                         name = entry_name v, symbol = entry_symbol v,
                         total_supply = entry_supply v, decimals = entry_decimals v\<rparr>),
              Some (ch\<lparr>items := remove_key key (items ch) @ [(key, v)]\<rparr>), s1)"
  using assms by (simp add: cache_lookup_def cache_get_def Let_def)

text \<open>What a successful resolution with a cache leaves behind: the key holds the fields
  it returned, and the interface is in the memo table.\<close>

lemma fetch_success_leaves_entry:
  assumes "fetch_erc20_details env web3 ta m r (Some ch) cid st = (Inr td, cache1, st1)"
  shows "\<exists>c st0 a abi key ch1.
           resolve_chain_id web3 cid st = (Inr c, st0)
         \<and> to_checksum_address env ta = Some a
         \<and> generate_cache_key (py_hash env) (PyInt c) (PyStr ta) = Inr key
         \<and> map_of (abi_cache st1) ''ERC20.json'' = Some abi
         \<and> cache1 = Some ch1
         \<and> map_of (items ch1) key
             = Some \<lparr>entry_name = name td, entry_symbol = symbol td,
                     entry_supply = total_supply td, entry_decimals = decimals td\<rparr>"
proof -
  obtain r0 c1 s1 where lk: "cache_lookup env web3 ta (Some ch) cid st = (r0, c1, s1)"
    using prod_cases3 by blast
  show ?thesis
  proof (cases r0)
    case (Inl e)
    then show ?thesis using assms lk by (simp add: fetch_erc20_details_def)
  next
    case (Inr lkp)
    then have lk': "cache_lookup env web3 ta (Some ch) cid st = (Inr lkp, c1, s1)"
      using lk by simp
    from cache_lookup_Some_cases [OF lk'] obtain c st0 a abi key where
      rc: "resolve_chain_id web3 cid st = (Inr c, st0)"
      and ad: "to_checksum_address env ta = Some a"
      and ga: "get_abi_by_filename env ''ERC20.json'' st0 = (Inr abi, s1)"
      and gk: "generate_cache_key (py_hash env) (PyInt c) (PyStr ta) = Inr key"
      and alt: "(map_of (items ch) key = None \<and> lkp = Miss \<lparr>address = a, contract_abi = abi\<rparr> key
                   \<and> c1 = Some ch)
              \<or> (\<exists>v. map_of (items ch) key = Some v
                  \<and> lkp = Hit \<lparr>contract = \<lparr>address = a, contract_abi = abi\<rparr>,
                               name = entry_name v, symbol = entry_symbol v,
                               total_supply = entry_supply v, decimals = entry_decimals v\<rparr>
                  \<and> c1 = Some (ch\<lparr>items := remove_key key (items ch) @ [(key, v)]\<rparr>))"
      by blast
    have abi1: "map_of (abi_cache s1) ''ERC20.json'' = Some abi"
      using get_abi_success [OF ga] by simp
    from alt show ?thesis
    proof
      assume miss: "map_of (items ch) key = None \<and> lkp = Miss \<lparr>address = a, contract_abi = abi\<rparr> key
                      \<and> c1 = Some ch"
      obtain res s2 where rf: "read_fields web3 a m r s1 = (res, s2)"
        by (cases "read_fields web3 a m r s1")
      have lkm: "cache_lookup env web3 ta (Some ch) cid st
                   = (Inr (Miss \<lparr>address = a, contract_abi = abi\<rparr> key), c1, s1)"
        using lk' miss by simp
      have rf': "read_fields web3 (address \<lparr>address = a, contract_abi = abi\<rparr>) m r s1 = (res, s2)"
        using rf by simp
      note f = fetch_after_miss [OF lkm rf']
      have s2: "abi_cache s2 = abi_cache s1"
        using abi_cache_read_fields [of web3 a m r s1] rf by simp
      show ?thesis
      proof (cases res)
        case (Inl e)
        then show ?thesis using f assms by simp
      next
        case (Inr flds)
        obtain sv nv dv tv where flds: "flds = (sv, nv, dv, tv)" by (cases flds)
        let ?e = "\<lparr>entry_name = nv, entry_symbol = sv, entry_supply = tv, entry_decimals = Some dv\<rparr>"
        show ?thesis
        proof (cases "cache_setitem ch key ?e")
          case (Inl e)
          then show ?thesis using f assms Inr flds by simp
        next
          case (Inr ch1)
          have "0 < maxsize ch" using Inr by (auto simp: cache_setitem_def split: if_splits)
          then have m: "map_of (items ch1) key = Some ?e"
            using cache_setitem_fits [of ch key ?e] Inr by auto
          have "td = \<lparr>contract = \<lparr>address = a, contract_abi = abi\<rparr>, name = nv, symbol = sv,
                      total_supply = tv, decimals = Some dv\<rparr>"
            and "cache1 = Some ch1" and "st1 = s2"
            using f assms \<open>res = Inr flds\<close> flds Inr by simp_all
          then show ?thesis using rc ad gk abi1 s2 m by simp
        qed
      qed
    next
      assume "\<exists>v. map_of (items ch) key = Some v
                  \<and> lkp = Hit \<lparr>contract = \<lparr>address = a, contract_abi = abi\<rparr>,
                               name = entry_name v, symbol = entry_symbol v,
                               total_supply = entry_supply v, decimals = entry_decimals v\<rparr>
                  \<and> c1 = Some (ch\<lparr>items := remove_key key (items ch) @ [(key, v)]\<rparr>)"
      then obtain v where v: "map_of (items ch) key = Some v"
        and h: "lkp = Hit \<lparr>contract = \<lparr>address = a, contract_abi = abi\<rparr>,
                               name = entry_name v, symbol = entry_symbol v,
                               total_supply = entry_supply v, decimals = entry_decimals v\<rparr>"
        and c1: "c1 = Some (ch\<lparr>items := remove_key key (items ch) @ [(key, v)]\<rparr>)"
        by blast
      have "td = \<lparr>contract = \<lparr>address = a, contract_abi = abi\<rparr>,
                   name = entry_name v, symbol = entry_symbol v,
                   total_supply = entry_supply v, decimals = entry_decimals v\<rparr>"
        and "cache1 = c1" and "st1 = s1"
        using assms lk' h by (simp_all add: fetch_erc20_details_def)
      then show ?thesis
        using rc ad gk abi1 c1 map_of_remove_key_append [of key "items ch" v] by simp
    qed
  qed
qed

text \<open>A resolution that finds its key in the cache: no read is made, and the log grows
  only by what the chain id cost.\<close>

lemma fetch_hit:
  assumes rc: "resolve_chain_id web3 cid st = (Inr c, st0)"
    and ad: "to_checksum_address env ta = Some a"
    and gk: "generate_cache_key (py_hash env) (PyInt c) (PyStr ta) = Inr key"
    and ab: "map_of (abi_cache st) ''ERC20.json'' = Some abi"
    and hit: "map_of (items ch) key = Some v"
  shows "\<exists>cache2 st2.
           fetch_erc20_details env web3 ta m r (Some ch) cid st
             = (Inr \<lparr>contract = \<lparr>address = a, contract_abi = abi\<rparr>,
                     name = entry_name v, symbol = entry_symbol v,
                     total_supply = entry_supply v, decimals = entry_decimals v\<rparr>, cache2, st2)
         \<and> rpc_log st2 = rpc_log st0"
proof -
  have "map_of (abi_cache st0) ''ERC20.json'' = Some abi"
    using abi_cache_resolve_chain_id [OF rc] ab by simp
  then have ga: "get_abi_by_filename env ''ERC20.json'' st0
      = (Inr abi, st0\<lparr>abi_cache := remove_key ''ERC20.json'' (abi_cache st0) @ [(''ERC20.json'', abi)]\<rparr>)"
    by (rule get_abi_cached)
  show ?thesis
    using cache_lookup_hit [OF rc ad ga gk hit]
    by (simp add: fetch_erc20_details_def)
qed

text \<open>
  C3 (as the code has it): after a resolution with an enabled cache has succeeded, a second
  resolution of the same token with the same \<open>chain_id\<close> argument returns details with the
  same name, symbol, decimals and total supply around a binding made in that call.  When
  the chain id is passed (and is not 0) the second call sends nothing to the node, whatever
  the node would answer; when it is left out (or 0) the second call first asks the node for
  the chain id, and that one request is all it sends.
\<close>

theorem fetch_again_from_cache:
  assumes first: "fetch_erc20_details env web3 token_address m1 r1 (Some cache) chain_id st
                    = (Inr td1, cache1, st1)"
  shows "((\<exists>c. chain_id = Some c \<and> c \<noteq> 0) \<longrightarrow>
           (\<exists>td2 cache2 st2 a.
              fetch_erc20_details env web3' token_address m2 r2 cache1 chain_id st1
                = (Inr td2, cache2, st2)
              \<and> name td2 = name td1 \<and> symbol td2 = symbol td1
              \<and> decimals td2 = decimals td1 \<and> total_supply td2 = total_supply td1
              \<and> to_checksum_address env token_address = Some a \<and> address (contract td2) = a
              \<and> rpc_log st2 = rpc_log st1))
       \<and> (chain_id = None \<or> chain_id = Some 0 \<longrightarrow>
           (\<exists>td2 cache2 st2 a.
              fetch_erc20_details env web3 token_address m2 r2 cache1 chain_id st1
                = (Inr td2, cache2, st2)
              \<and> name td2 = name td1 \<and> symbol td2 = symbol td1
              \<and> decimals td2 = decimals td1 \<and> total_supply td2 = total_supply td1
              \<and> to_checksum_address env token_address = Some a \<and> address (contract td2) = a
              \<and> rpc_log st2 = rpc_log st1 @ [EthChainId]))"
proof -
  from fetch_success_leaves_entry [OF first] obtain c st0 a abi key ch1 where
    rc: "resolve_chain_id web3 chain_id st = (Inr c, st0)"
    and ad: "to_checksum_address env token_address = Some a"
    and gk: "generate_cache_key (py_hash env) (PyInt c) (PyStr token_address) = Inr key"
    and ab: "map_of (abi_cache st1) ''ERC20.json'' = Some abi"
    and c1: "cache1 = Some ch1"
    and en: "map_of (items ch1) key
               = Some \<lparr>entry_name = name td1, entry_symbol = symbol td1,
                       entry_supply = total_supply td1, entry_decimals = decimals td1\<rparr>"
    by blast
  show ?thesis
  proof (intro conjI impI)
    assume "\<exists>c. chain_id = Some c \<and> c \<noteq> 0"
    then obtain c' where c': "chain_id = Some c'" "c' \<noteq> 0" by blast
    then have "c = c'" using rc by (simp add: resolve_chain_id_def)
    then have rc2: "resolve_chain_id web3' chain_id st1 = (Inr c, st1)"
      using c' by (simp add: resolve_chain_id_def)
    from fetch_hit [OF rc2 ad gk ab en, of m2 r2]
    show "\<exists>td2 cache2 st2 a.
              fetch_erc20_details env web3' token_address m2 r2 cache1 chain_id st1
                = (Inr td2, cache2, st2)
              \<and> name td2 = name td1 \<and> symbol td2 = symbol td1
              \<and> decimals td2 = decimals td1 \<and> total_supply td2 = total_supply td1
              \<and> to_checksum_address env token_address = Some a \<and> address (contract td2) = a
              \<and> rpc_log st2 = rpc_log st1"
      using c1 ad by auto
  next
    assume "chain_id = None \<or> chain_id = Some 0"
    then have ask: "resolve_chain_id web3 chain_id s
                      = (eth_chain_id web3, s\<lparr>rpc_log := rpc_log s @ [EthChainId]\<rparr>)" for s
      by (auto simp: resolve_chain_id_def)
    have "eth_chain_id web3 = Inr c" using rc ask [of st] by simp
    then have rc2: "resolve_chain_id web3 chain_id st1
                      = (Inr c, st1\<lparr>rpc_log := rpc_log st1 @ [EthChainId]\<rparr>)"
      using ask [of st1] by simp
    from fetch_hit [OF rc2 ad gk ab en, of m2 r2]
    show "\<exists>td2 cache2 st2 a.
              fetch_erc20_details env web3 token_address m2 r2 cache1 chain_id st1
                = (Inr td2, cache2, st2)
              \<and> name td2 = name td1 \<and> symbol td2 = symbol td1
              \<and> decimals td2 = decimals td1 \<and> total_supply td2 = total_supply td1
              \<and> to_checksum_address env token_address = Some a \<and> address (contract td2) = a
              \<and> rpc_log st2 = rpc_log st1 @ [EthChainId]"
      using c1 ad by auto
  qed
qed

lemma demo_first_call:
  "fetch_erc20_details demo_env demo_node demo_token 256 True (Some DEFAULT_TOKEN_CACHE) cid fresh
     = (Inr \<lparr>contract = \<lparr>address = demo_token, contract_abi = Abi ''[]''\<rparr>,
             name = Some ''Dai Stablecoin'', symbol = Some ''DAI'',
             total_supply = Some 1000000, decimals = Some 18\<rparr>,
        Some \<lparr>maxsize = 1024,
              items = [(43, \<lparr>entry_name = Some ''Dai Stablecoin'', entry_symbol = Some ''DAI'',
                              entry_supply = Some 1000000, entry_decimals = Some 18\<rparr>)]\<rparr>,
        \<lparr>rpc_log = (if cid = Some 1 then [] else [EthChainId]) @
                    [EthCall demo_token ''symbol'', EthCall demo_token ''name'',
                     EthCall demo_token ''decimals'', EthCall demo_token ''totalSupply''],
         abi_cache = [(''ERC20.json'', Abi ''[]'')]\<rparr>)"
  if "cid = Some 1 \<or> cid = None"
proof -
  let ?st = "\<lparr>rpc_log = (if cid = Some 1 then [] else [EthChainId]),
              abi_cache = [(''ERC20.json'', Abi ''[]'')]\<rparr>"
  have key: "generate_cache_key (py_hash demo_env) (PyInt 1) (PyStr demo_token) = Inr 43"
    by (simp add: generate_cache_key_def demo_env_def demo_hash_def demo_token_def
        startswith_def lower_def)
  have rc: "resolve_chain_id demo_node cid fresh
              = (Inr 1, \<lparr>rpc_log = (if cid = Some 1 then [] else [EthChainId]), abi_cache = []\<rparr>)"
    using that by (auto simp: resolve_chain_id_def demo_node_def fresh_def)
  have abi: "get_abi_by_filename demo_env ''ERC20.json''
               \<lparr>rpc_log = (if cid = Some 1 then [] else [EthChainId]), abi_cache = []\<rparr>
             = (Inr (Abi ''[]''), ?st)"
    by (simp add: get_abi_by_filename_def demo_env_def)
  have addr: "to_checksum_address demo_env demo_token = Some demo_token"
    by (simp add: demo_env_def)
  have lk: "cache_lookup demo_env demo_node demo_token (Some DEFAULT_TOKEN_CACHE) cid fresh
     = (Inr (Miss \<lparr>address = demo_token, contract_abi = Abi ''[]''\<rparr> 43),
        Some DEFAULT_TOKEN_CACHE, ?st)"
    by (simp add: cache_lookup_def rc key abi addr cache_get_def DEFAULT_TOKEN_CACHE_def)
  have rf: "read_fields demo_node (address \<lparr>address = demo_token, contract_abi = Abi ''[]''\<rparr>) 256 True ?st
       = (Inr (Some ''DAI'', Some ''Dai Stablecoin'', 18, Some 1000000),
          \<lparr>rpc_log = (if cid = Some 1 then [] else [EthChainId]) @
                    [EthCall demo_token ''symbol'', EthCall demo_token ''name'',
                     EthCall demo_token ''decimals'', EthCall demo_token ''totalSupply''],
           abi_cache = [(''ERC20.json'', Abi ''[]'')]\<rparr>)"
    by (simp add: read_fields_def read_str_def read_decimals_def read_supply_def called_def
        demo_node_def slice_to_def Let_def)
  show ?thesis
    using fetch_after_miss [OF lk rf]
    by (simp add: cache_setitem_def DEFAULT_TOKEN_CACHE_def)
qed

theorem fetch_again_from_cache_witness:
  "\<exists>td2 cache2 st2.
     fetch_erc20_details demo_env
         (demo_node\<lparr>eth_chain_id := Inl ConnectionError,
                     symbol_call := (\<lambda>_. Failed ConnectionError),
                     name_call := (\<lambda>_. Failed ConnectionError),
                     decimals_call := (\<lambda>_. Failed ConnectionError),
                     totalSupply_call := (\<lambda>_. Failed ConnectionError)\<rparr>)
         demo_token 256 True
         (Some \<lparr>maxsize = 1024,
                items = [(43, \<lparr>entry_name = Some ''Dai Stablecoin'', entry_symbol = Some ''DAI'',
                                entry_supply = Some 1000000, entry_decimals = Some 18\<rparr>)]\<rparr>)
         (Some 1)
         \<lparr>rpc_log = [EthCall demo_token ''symbol'', EthCall demo_token ''name'',
                     EthCall demo_token ''decimals'', EthCall demo_token ''totalSupply''],
          abi_cache = [(''ERC20.json'', Abi ''[]'')]\<rparr>
       = (Inr td2, cache2, st2)
     \<and> name td2 = Some ''Dai Stablecoin'' \<and> symbol td2 = Some ''DAI''
     \<and> decimals td2 = Some 18 \<and> total_supply td2 = Some 1000000
     \<and> address (contract td2) = demo_token
     \<and> rpc_log st2 = [EthCall demo_token ''symbol'', EthCall demo_token ''name'',
                       EthCall demo_token ''decimals'', EthCall demo_token ''totalSupply'']"
proof -
  have one: "Some (1::int) = Some 1 \<or> Some (1::int) = None" by simp
  show ?thesis
    using fetch_again_from_cache [OF demo_first_call [OF one],
        where web3' = "demo_node\<lparr>eth_chain_id := Inl ConnectionError,
                     symbol_call := (\<lambda>_. Failed ConnectionError),
                     name_call := (\<lambda>_. Failed ConnectionError),
                     decimals_call := (\<lambda>_. Failed ConnectionError),
                     totalSupply_call := (\<lambda>_. Failed ConnectionError)\<rparr>"
          and ?m2.0 = 256 and ?r2.0 = True]
    by (simp add: demo_env_def)
qed

text \<open>
  C3 as stated fails for the default call, which passes no chain id: the first resolution
  fills the cache, the second finds the token there and still sends one request to the
  node.
\<close>

theorem fetch_again_counterexample:
  "fetch_erc20_details demo_env demo_node demo_token 256 True (Some DEFAULT_TOKEN_CACHE) None fresh
     = (Inr \<lparr>contract = \<lparr>address = demo_token, contract_abi = Abi ''[]''\<rparr>,
             name = Some ''Dai Stablecoin'', symbol = Some ''DAI'',
             total_supply = Some 1000000, decimals = Some 18\<rparr>,
        Some \<lparr>maxsize = 1024,
              items = [(43, \<lparr>entry_name = Some ''Dai Stablecoin'', entry_symbol = Some ''DAI'',
                              entry_supply = Some 1000000, entry_decimals = Some 18\<rparr>)]\<rparr>,
        \<lparr>rpc_log = [EthChainId, EthCall demo_token ''symbol'', EthCall demo_token ''name'',
                    EthCall demo_token ''decimals'', EthCall demo_token ''totalSupply''],
         abi_cache = [(''ERC20.json'', Abi ''[]'')]\<rparr>)
   \<and> fetch_erc20_details demo_env demo_node demo_token 256 True
       (Some \<lparr>maxsize = 1024,
              items = [(43, \<lparr>entry_name = Some ''Dai Stablecoin'', entry_symbol = Some ''DAI'',
                              entry_supply = Some 1000000, entry_decimals = Some 18\<rparr>)]\<rparr>)
       None
       \<lparr>rpc_log = [EthChainId, EthCall demo_token ''symbol'', EthCall demo_token ''name'',
                   EthCall demo_token ''decimals'', EthCall demo_token ''totalSupply''],
        abi_cache = [(''ERC20.json'', Abi ''[]'')]\<rparr>
     = (Inr \<lparr>contract = \<lparr>address = demo_token, contract_abi = Abi ''[]''\<rparr>,
             name = Some ''Dai Stablecoin'', symbol = Some ''DAI'',
             total_supply = Some 1000000, decimals = Some 18\<rparr>,
        Some \<lparr>maxsize = 1024,
              items = [(43, \<lparr>entry_name = Some ''Dai Stablecoin'', entry_symbol = Some ''DAI'',
                              entry_supply = Some 1000000, entry_decimals = Some 18\<rparr>)]\<rparr>,
        \<lparr>rpc_log = [EthChainId, EthCall demo_token ''symbol'', EthCall demo_token ''name'',
                    EthCall demo_token ''decimals'', EthCall demo_token ''totalSupply'',
                    EthChainId],
         abi_cache = [(''ERC20.json'', Abi ''[]'')]\<rparr>)"
proof -
  have key: "generate_cache_key (py_hash demo_env) (PyInt 1) (PyStr demo_token) = Inr 43"
    by (simp add: generate_cache_key_def demo_env_def demo_hash_def demo_token_def
        startswith_def lower_def)
  have addr: "to_checksum_address demo_env demo_token = Some demo_token"
    by (simp add: demo_env_def)
  have second: "fetch_erc20_details demo_env demo_node demo_token 256 True
       (Some \<lparr>maxsize = 1024,
              items = [(43, \<lparr>entry_name = Some ''Dai Stablecoin'', entry_symbol = Some ''DAI'',
                              entry_supply = Some 1000000, entry_decimals = Some 18\<rparr>)]\<rparr>)
       None
       \<lparr>rpc_log = [EthChainId, EthCall demo_token ''symbol'', EthCall demo_token ''name'',
                   EthCall demo_token ''decimals'', EthCall demo_token ''totalSupply''],
        abi_cache = [(''ERC20.json'', Abi ''[]'')]\<rparr>
     = (Inr \<lparr>contract = \<lparr>address = demo_token, contract_abi = Abi ''[]''\<rparr>,
             name = Some ''Dai Stablecoin'', symbol = Some ''DAI'',
             total_supply = Some 1000000, decimals = Some 18\<rparr>,
        Some \<lparr>maxsize = 1024,
              items = [(43, \<lparr>entry_name = Some ''Dai Stablecoin'', entry_symbol = Some ''DAI'',
                              entry_supply = Some 1000000, entry_decimals = Some 18\<rparr>)]\<rparr>,
        \<lparr>rpc_log = [EthChainId, EthCall demo_token ''symbol'', EthCall demo_token ''name'',
                    EthCall demo_token ''decimals'', EthCall demo_token ''totalSupply'',
                    EthChainId],
         abi_cache = [(''ERC20.json'', Abi ''[]'')]\<rparr>)"
    by (simp add: fetch_erc20_details_def cache_lookup_def resolve_chain_id_def key addr
        get_abi_by_filename_def cache_get_def remove_key_def demo_node_def)
  have none: "(None :: int option) = Some 1 \<or> (None :: int option) = None" by simp
  show ?thesis using demo_first_call [OF none] second by simp
qed

section \<open>Confirmation of the swap\<close>

lemma swap_event_error: "swap_event sig ls = Inl e \<Longrightarrow> e = IndexError"
  by (induction ls) (auto split: list.splits if_splits)

lemma nat_truediv_error: "nat_truediv a b = Inl e \<Longrightarrow> e = OverflowError"
  by (auto simp: nat_truediv_def Let_def split: if_splits)

lemma actual_amount_out_error:
  "actual_amount_out d x = Inl e \<Longrightarrow> e = OverflowError \<or> e = ZeroDivisionError"
  by (auto simp: actual_amount_out_def int_truediv_def dest: nat_truediv_error
      split: if_splits sum.splits)

lemma check_receipt_success:
  assumes "status r = 1"
  shows "\<exists>rest eo. check_receipt decode sig d r = (TransactionSuccessful (transactionHash r) # rest, eo)
           \<and> (\<forall>m \<in> set rest. \<not> is_success m \<and> \<not> is_failure m \<and> m \<noteq> NotMinedWithinTimeout)
           \<and> (eo = None \<or> eo = Some IndexError \<or> eo = Some DecodingError
               \<or> eo = Some OverflowError \<or> eo = Some ZeroDivisionError)"
  using assms
  by (auto simp: check_receipt_def Let_def
      dest: swap_event_error actual_amount_out_error
      split: sum.splits option.splits)

lemma confirm_swap_success:
  assumes "status r = 1"
  shows "outcomes (confirm_swap decode sig d (Inr r)) = [MinedSuccess]
         \<and> hd (confirm_swap decode sig d (Inr r)) = TransactionSuccessful (transactionHash r)"
proof -
  from check_receipt_success [OF assms] obtain rest eo where
    c: "check_receipt decode sig d r = (TransactionSuccessful (transactionHash r) # rest, eo)"
    and rest: "\<forall>m \<in> set rest. \<not> is_success m \<and> \<not> is_failure m \<and> m \<noteq> NotMinedWithinTimeout"
    and eo: "eo = None \<or> eo = Some IndexError \<or> eo = Some DecodingError
               \<or> eo = Some OverflowError \<or> eo = Some ZeroDivisionError"
    by blast
  have h: "\<not> is_success (handler e) \<and> \<not> is_failure (handler e) \<and> handler e \<noteq> NotMinedWithinTimeout"
    if "eo = Some e" for e
    using eo that by (auto simp: handler_def)
  show ?thesis
  proof (cases eo)
    case None
    then show ?thesis using c rest
      by (auto simp: confirm_swap_def outcomes_def mined_success_def mined_failure_def
          timed_out_def list_ex_iff)
  next
    case (Some e)
    then show ?thesis using c rest h [OF Some]
      by (auto simp: confirm_swap_def outcomes_def mined_success_def mined_failure_def
          timed_out_def list_ex_iff)
  qed
qed

lemma startswith_append: "startswith (p @ s) p"
  by (simp add: startswith_def)

lemma is_failure_script:
  "is_failure (ErrorOccurred (Exception (''Transaction failed with hash: '' @ h)))"
  by (simp only: is_failure.simps startswith_append)

lemma outcomes_error_line:
  "outcomes [ErrorOccurred e] = (if is_failure (ErrorOccurred e) then [MinedFailure] else [])"
  by (simp add: outcomes_def mined_success_def mined_failure_def timed_out_def)

lemma outcomes_failure_line:
  "outcomes [ErrorOccurred (Exception (''Transaction failed with hash: '' @ h))] = [MinedFailure]"
  using is_failure_script [of h] by (simp only: outcomes_error_line if_True)

lemma outcomes_timeout_line: "outcomes [NotMinedWithinTimeout] = [TimedOut]"
  by (simp add: outcomes_def mined_success_def mined_failure_def timed_out_def)

lemma confirm_swap_failure:
  assumes "status r \<noteq> 1"
  shows "confirm_swap decode sig d (Inr r)
           = [ErrorOccurred (Exception (''Transaction failed with hash: '' @ transactionHash r))]"
  using assms by (simp add: confirm_swap_def check_receipt_def handler_def)

lemma confirm_swap_raised:
  "confirm_swap decode sig d (Inl e)
     = (if e = TimeExhausted then [NotMinedWithinTimeout] else [ErrorOccurred e])"
  by (simp add: confirm_swap_def handler_def)

lemma confirm_swap_at_most_one: "length (outcomes (confirm_swap decode sig d waited)) \<le> 1"
proof (cases waited)
  case (Inl e)
  then show ?thesis
    by (simp add: confirm_swap_raised outcomes_error_line outcomes_timeout_line)
next
  case (Inr r)
  show ?thesis
  proof (cases "status r = 1")
    case True
    then show ?thesis using confirm_swap_success [of r decode sig d] Inr by simp
  next
    case False
    then show ?thesis
      using confirm_swap_failure [OF False, of decode sig d] outcomes_failure_line [of "transactionHash r"]
        Inr by simp
  qed
qed

text \<open>
  C5 (as the code has it): the confirmation reports as a function of what the call
  \<open>wait_for_transaction_receipt(tx_hash, timeout=120)\<close> brought.  A receipt with status 1
  gives the success line (first) and the outcome Mined-Success; a receipt with status 0, or
  any status other than 1, gives only the error line of the failure and the outcome
  Mined-Failure; \<open>TimeExhausted\<close>, raised when no receipt came within the timeout, gives only
  the timeout line and the outcome TimedOut.  Any other exception of the call gives only the
  error line of that exception: neither success nor timeout, and a failure only if it reads
  as one.  So every confirmation that reports at all reports at most one of the three
  outcomes, and the script reports whenever the call comes back: it fails to do so exactly
  when the call, which was given the timeout of 120 seconds, never comes back.
\<close>

theorem confirm_swap_outcome:
  "(\<forall>r. wait tx_hash 120 = Some (Inr r) \<and> status r = 1 \<longrightarrow>
       (\<exists>out. confirm wait decode sig d tx_hash = Some out
          \<and> hd out = TransactionSuccessful (transactionHash r)
          \<and> outcomes out = [MinedSuccess]))
   \<and> (\<forall>r. wait tx_hash 120 = Some (Inr r) \<and> status r \<noteq> 1 \<longrightarrow>
       (\<exists>out. confirm wait decode sig d tx_hash = Some out
          \<and> out = [ErrorOccurred (Exception (''Transaction failed with hash: '' @ transactionHash r))]
          \<and> outcomes out = [MinedFailure]))
   \<and> (wait tx_hash 120 = Some (Inl TimeExhausted) \<longrightarrow>
       (\<exists>out. confirm wait decode sig d tx_hash = Some out
          \<and> out = [NotMinedWithinTimeout] \<and> outcomes out = [TimedOut]))
   \<and> (\<forall>e. wait tx_hash 120 = Some (Inl e) \<and> e \<noteq> TimeExhausted \<longrightarrow>
       (\<exists>out. confirm wait decode sig d tx_hash = Some out
          \<and> out = [ErrorOccurred e]
          \<and> outcomes out = (if is_failure (ErrorOccurred e) then [MinedFailure] else [])))
   \<and> (\<forall>out. confirm wait decode sig d tx_hash = Some out \<longrightarrow> length (outcomes out) \<le> 1)
   \<and> (confirm wait decode sig d tx_hash = None \<longleftrightarrow> wait tx_hash 120 = None)"
proof (intro conjI allI impI)
  fix r
  assume "wait tx_hash 120 = Some (Inr r) \<and> status r = 1"
  then show "\<exists>out. confirm wait decode sig d tx_hash = Some out
          \<and> hd out = TransactionSuccessful (transactionHash r)
          \<and> outcomes out = [MinedSuccess]"
    using confirm_swap_success [of r decode sig d] by (simp add: confirm_def)
next
  fix r
  assume "wait tx_hash 120 = Some (Inr r) \<and> status r \<noteq> 1"
  then show "\<exists>out. confirm wait decode sig d tx_hash = Some out
          \<and> out = [ErrorOccurred (Exception (''Transaction failed with hash: '' @ transactionHash r))]
          \<and> outcomes out = [MinedFailure]"
    using confirm_swap_failure [of r decode sig d] outcomes_failure_line [of "transactionHash r"]
    by (simp add: confirm_def)
next
  assume "wait tx_hash 120 = Some (Inl TimeExhausted)"
  then show "\<exists>out. confirm wait decode sig d tx_hash = Some out
          \<and> out = [NotMinedWithinTimeout] \<and> outcomes out = [TimedOut]"
    by (simp add: confirm_def confirm_swap_raised outcomes_timeout_line)
next
  fix e
  assume "wait tx_hash 120 = Some (Inl e) \<and> e \<noteq> TimeExhausted"
  then show "\<exists>out. confirm wait decode sig d tx_hash = Some out
          \<and> out = [ErrorOccurred e]
          \<and> outcomes out = (if is_failure (ErrorOccurred e) then [MinedFailure] else [])"
    by (simp add: confirm_def confirm_swap_raised outcomes_error_line)
next
  fix out
  assume "confirm wait decode sig d tx_hash = Some out"
  then show "length (outcomes out) \<le> 1"
    using confirm_swap_at_most_one [of decode sig d]
    by (auto simp: confirm_def split: option.splits)
next
  show "confirm wait decode sig d tx_hash = None \<longleftrightarrow> wait tx_hash 120 = None"
    by (simp add: confirm_def split: option.splits)
qed

theorem confirm_swap_outcome_witness:
  "demo_wait (Inr (demo_receipt 1 [])) ''0x5c50'' 120 = Some (Inr (demo_receipt 1 []))
   \<and> status (demo_receipt 1 []) = 1
   \<and> (\<exists>out. confirm (demo_wait (Inr (demo_receipt 1 []))) demo_decode demo_signature 6 ''0x5c50''
               = Some out \<and> outcomes out = [MinedSuccess])
   \<and> demo_wait (Inr (demo_receipt 0 [])) ''0x5c50'' 120 = Some (Inr (demo_receipt 0 []))
   \<and> status (demo_receipt 0 []) \<noteq> 1
   \<and> (\<exists>out. confirm (demo_wait (Inr (demo_receipt 0 []))) demo_decode demo_signature 6 ''0x5c50''
               = Some out \<and> outcomes out = [MinedFailure])
   \<and> demo_wait (Inl TimeExhausted) ''0x5c50'' 120 = Some (Inl TimeExhausted)
   \<and> (\<exists>out. confirm (demo_wait (Inl TimeExhausted)) demo_decode demo_signature 6 ''0x5c50''
               = Some out \<and> outcomes out = [TimedOut])
   \<and> demo_wait (Inl ConnectionError) ''0x5c50'' 120 = Some (Inl ConnectionError)
   \<and> ConnectionError \<noteq> TimeExhausted
   \<and> (\<exists>out. confirm (demo_wait (Inl ConnectionError)) demo_decode demo_signature 6 ''0x5c50''
               = Some out \<and> out = [ErrorOccurred ConnectionError])"
proof -
  have s: "status (demo_receipt 1 []) = 1 \<and> status (demo_receipt 0 []) \<noteq> 1"
    by (simp add: demo_receipt_def)
  have w: "demo_wait a ''0x5c50'' 120 = Some a" for a
    by (simp add: demo_wait_def)
  have a: "\<exists>out. confirm (demo_wait (Inr (demo_receipt 1 []))) demo_decode demo_signature 6 ''0x5c50''
               = Some out \<and> outcomes out = [MinedSuccess]"
    using s w [of "Inr (demo_receipt 1 [])"]
      confirm_swap_outcome [of "demo_wait (Inr (demo_receipt 1 []))" "''0x5c50''" demo_decode
        demo_signature 6]
    by blast
  have b: "\<exists>out. confirm (demo_wait (Inr (demo_receipt 0 []))) demo_decode demo_signature 6 ''0x5c50''
               = Some out \<and> outcomes out = [MinedFailure]"
    using s w [of "Inr (demo_receipt 0 [])"]
      confirm_swap_outcome [of "demo_wait (Inr (demo_receipt 0 []))" "''0x5c50''" demo_decode
        demo_signature 6]
    by blast
  have c: "\<exists>out. confirm (demo_wait (Inl TimeExhausted)) demo_decode demo_signature 6 ''0x5c50''
               = Some out \<and> outcomes out = [TimedOut]"
    using w [of "Inl TimeExhausted"]
      confirm_swap_outcome [of "demo_wait (Inl TimeExhausted)" "''0x5c50''" demo_decode
        demo_signature 6]
    by blast
  have ne: "ConnectionError \<noteq> TimeExhausted" by simp
  have e: "\<exists>out. confirm (demo_wait (Inl ConnectionError)) demo_decode demo_signature 6 ''0x5c50''
               = Some out \<and> out = [ErrorOccurred ConnectionError]"
    using ne w [of "Inl ConnectionError"]
      confirm_swap_outcome [of "demo_wait (Inl ConnectionError)" "''0x5c50''" demo_decode
        demo_signature 6]
    by blast
  show ?thesis using s w a b c ne e by blast
qed

text \<open>
  C5 as stated fails: when the call is cut off by a lost connection the script prints the
  error line of that exception, and none of the three outcomes is produced.
\<close>

theorem confirm_swap_counterexample:
  "confirm (demo_wait (Inl ConnectionError)) demo_decode demo_signature 6 ''0x5c50''
     = Some [ErrorOccurred ConnectionError]
   \<and> outcomes [ErrorOccurred ConnectionError] = []"
  by (simp add: confirm_def demo_wait_def confirm_swap_def handler_def outcomes_def
      mined_success_def mined_failure_def timed_out_def)

section \<open>The Swap event\<close>

lemma bit_length_le: "n < 2 ^ k \<Longrightarrow> bit_length n \<le> k"
proof (induction k arbitrary: n)
  case 0 then show ?case by (subst bit_length.simps) simp
next
  case (Suc k)
  show ?case
  proof (cases "n = 0")
    case True then show ?thesis by (subst bit_length.simps) simp
  next
    case False
    have "n div 2 < 2 ^ k" using Suc.prems by (simp add: less_mult_imp_div_less mult.commute)
    then have "bit_length (n div 2) \<le> k" by (rule Suc.IH)
    then show ?thesis using False by (subst bit_length.simps) simp
  qed
qed

lemma bit_length_gt: "2 ^ k \<le> n \<Longrightarrow> k < bit_length n"
proof (induction k arbitrary: n)
  case 0 then show ?case by (subst bit_length.simps) simp
next
  case (Suc k)
  have "(2::nat) \<le> 2 ^ Suc k" by simp
  then have n0: "n \<noteq> 0" using Suc.prems by linarith
  have "2 ^ k \<le> n div 2" using Suc.prems by (simp add: less_eq_div_iff_mult_less_eq mult.commute)
  then have "k < bit_length (n div 2)" by (rule Suc.IH)
  then show ?case using n0 by (subst bit_length.simps) simp
qed

lemma bit_length_eq: "2 ^ k \<le> n \<Longrightarrow> n < 2 ^ Suc k \<Longrightarrow> bit_length n = Suc k"
  using bit_length_le [of n "Suc k"] bit_length_gt [of k n] by simp

lemma nat_truediv_nonneg: "nat_truediv a b = Inr q \<Longrightarrow> 0 \<le> q"
  by (auto simp: nat_truediv_def Let_def split: if_splits)

text \<open>The absolute value of the quotient is the quotient of the absolute value.\<close>

lemma actual_amount_out_abs: "actual_amount_out d x = int_truediv \<bar>x\<bar> (10 ^ d)"
proof (cases "nat_truediv (nat \<bar>x\<bar>) (10 ^ d)")
  case (Inl e)
  then show ?thesis
    by (simp add: actual_amount_out_def int_truediv_def nat_power_eq)
next
  case (Inr q)
  then have "0 \<le> q" by (rule nat_truediv_nonneg)
  then show ?thesis using Inr
    by (simp add: actual_amount_out_def int_truediv_def nat_power_eq)
qed

text \<open>The example of the specification: \<open>abs(-500000 / 10 ** 6)\<close> is \<open>0.5\<close>.\<close>

lemma actual_amount_out_example:
  "amount_out (- 500000, 500100, p, l) = - 500000"
  "actual_amount_out 6 (- 500000) = Inr (1 / 2)"
proof -
  show "amount_out (- 500000, 500100, p, l) = - 500000" by (simp add: amount_out_def)
  have a: "bit_length 500000 = 19" using bit_length_eq [of 18 500000] by simp
  have b: "bit_length 1000000 = 20" using bit_length_eq [of 19 1000000] by simp
  have "nat_truediv 500000 1000000 = Inr (1 / 2)"
    by (simp add: nat_truediv_def a b scaled_def round_half_even_def Let_def)
  then show "actual_amount_out 6 (- 500000) = Inr (1 / 2)"
    by (simp add: actual_amount_out_def int_truediv_def)
qed

text \<open>The scan returns the first log whose first topic is the signature, and \<open>None\<close> when
  every log has a first topic and none is the signature.\<close>

lemma swap_event_first_match:
  assumes "\<forall>l \<in> set before. \<exists>t ts. topics l = t # ts \<and> t \<noteq> sig"
    and "topics ev = sig # ts"
  shows "swap_event sig (before @ ev # rest) = Inr (Some ev)"
  using assms by (induction before) auto

lemma swap_event_no_match:
  assumes "\<forall>l \<in> set ls. \<exists>t ts. topics l = t # ts \<and> t \<noteq> sig"
  shows "swap_event sig ls = Inr None"
  using assms by (induction ls) auto

text \<open>
  C4: a receipt of a mined transaction whose only log has no topics.  No log matches the
  signature, yet the scan does not return \<open>None\<close>: \<open>log.topics[0]\<close> raises \<open>IndexError\<close>,
  and the script reports an error instead of "No Swap event found".
\<close>

theorem swap_event_topicless_log:
  "swap_event demo_signature [\<lparr>topics = [], data = ''''\<rparr>] = Inl IndexError
   \<and> confirm_swap demo_decode demo_signature 6
        (Inr (demo_receipt 1 [\<lparr>topics = [], data = ''''\<rparr>]))
       = [TransactionSuccessful ''0x5c50'', ErrorOccurred IndexError]"
  by (simp add: confirm_swap_def check_receipt_def demo_receipt_def handler_def)

end
